theory Spec2Isabelle
  imports Complex_Main "HOL-Library.Sublist" "HOL-Library.Multiset"
begin

section \<open>JavaScript values used by the services\<close>

text \<open>
  Strings are sequences of code units; the model keeps the code units below 256
  (ASCII and Latin-1), which is where every keyword the code searches for lives.
  \<open>toLowerCase\<close> maps \<open>A\<close>..\<open>Z\<close> and the Latin-1 capitals (U+00C0..U+00DE without
  U+00D7) to the letter 32 places further on and leaves every other code unit alone.
\<close>

definition toLowerChar :: "char \<Rightarrow> char" where
  "toLowerChar c =
     (let n = (of_char c :: nat)
      in if (65 \<le> n \<and> n \<le> 90) \<or> (192 \<le> n \<and> n \<le> 222 \<and> n \<noteq> 215)
         then char_of (n + 32) else c)"

definition toLowerCase :: "string \<Rightarrow> string" where
  "toLowerCase s = map toLowerChar s"

text \<open>\<open>s.includes(p)\<close>: does \<open>p\<close> occur in \<open>s\<close> as a contiguous run of code units.\<close>

fun startsWith :: "string \<Rightarrow> string \<Rightarrow> bool" where
  "startsWith s [] = True"
| "startsWith [] (p # ps) = False"
| "startsWith (c # cs) (p # ps) = (c = p \<and> startsWith cs ps)"

fun includes_str :: "string \<Rightarrow> string \<Rightarrow> bool" where
  "includes_str [] p = (p = [])"
| "includes_str (c # cs) p = (startsWith (c # cs) p \<or> includes_str cs p)"

text \<open>
  \<open>Array.prototype.sort(cmp)\<close> is the language's sort, not code of the services.
  ECMAScript (2019 and later) requires it to be stable, and for a consistent
  comparator its result is then determined: the elements in comparator order, elements
  that compare equal in their original order. The model is the stable insertion sort:
  an element is put in front of the first element of the already sorted rest that it
  does not have to follow (\<open>cmp x y \<le> 0\<close>).
\<close>

fun insert_cmp :: "('a \<Rightarrow> 'a \<Rightarrow> int) \<Rightarrow> 'a \<Rightarrow> 'a list \<Rightarrow> 'a list" where
  "insert_cmp cmp x [] = [x]"
| "insert_cmp cmp x (y # ys) =
     (if cmp x y \<le> 0 then x # y # ys else y # insert_cmp cmp x ys)"

definition array_sort :: "('a \<Rightarrow> 'a \<Rightarrow> int) \<Rightarrow> 'a list \<Rightarrow> 'a list" where
  "array_sort cmp xs = foldr (insert_cmp cmp) xs []"


text \<open>
  JavaScript numbers are IEEE 754 doubles, and \<open>+\<close> and \<open>/\<close> round their exact result
  to the nearest double, a tie going to the double with the even significand. A finite
  number is modelled by the real it denotes. \<open>binade x\<close> is the exponent \<open>e\<close> with
  \<open>2^e \<le> |x| < 2^(e+1)\<close>, kept between -1022 (where the subnormal numbers begin) and
  1023; the doubles of that binade are the multiples of \<open>2^(e-52)\<close>, and
  \<open>round_double\<close> picks the nearest of them. A result beyond the largest double is
  \<open>Infinity\<close> in the runtime; the model keeps a finite value of the same sign that is at
  least \<open>2^1023\<close> in size, which compares with every number used here as the infinity
  does.
\<close>

definition pow2 :: "int \<Rightarrow> real" where
  "pow2 e = (if 0 \<le> e then 2 ^ nat e else 1 / 2 ^ nat (- e))"

fun binade_up :: "nat \<Rightarrow> int \<Rightarrow> real \<Rightarrow> int" where
  "binade_up 0 e a = e"
| "binade_up (Suc n) e a = (if a < pow2 (e + 1) then e else binade_up n (e + 1) a)"

fun binade_down :: "nat \<Rightarrow> int \<Rightarrow> real \<Rightarrow> int" where
  "binade_down 0 e a = e"
| "binade_down (Suc n) e a = (if pow2 e \<le> a then e else binade_down n (e - 1) a)"

definition binade :: "real \<Rightarrow> int" where
  "binade x = (if 1 \<le> \<bar>x\<bar> then binade_up 1023 0 \<bar>x\<bar> else binade_down 1021 (- 1) \<bar>x\<bar>)"

definition round_half_even :: "real \<Rightarrow> int" where
  "round_half_even y =
     (let f = \<lfloor>y\<rfloor>; d = y - of_int f
      in if d < 1 / 2 then f else if d > 1 / 2 then f + 1 else if even f then f else f + 1)"

definition round_double :: "real \<Rightarrow> real" where
  "round_double x = (let q = pow2 (binade x - 52) in of_int (round_half_even (x / q)) * q)"

definition js_add :: "real \<Rightarrow> real \<Rightarrow> real" where
  "js_add a b = round_double (a + b)"

definition js_div :: "real \<Rightarrow> real \<Rightarrow> real" where
  "js_div a b = round_double (a / b)"


section \<open>The visit-window scorer of \<open>planParkVisit\<close>\<close>

text \<open>
  A forecast day as the weather service hands it over. Temperatures and the chance of
  rain are finite JavaScript numbers.
\<close>

record ForecastDay =
  date :: string
  minTempF :: real
  maxTempF :: real
  chanceOfRain :: real
  condition :: string

text \<open>
  An entry of \<open>goodWeatherDays\<close>. The field \<open>conditions\<close> is the text
  \<open>"<min> F to <max> F, <condition>, <rain>% chance of rain"\<close>; the model keeps the four
  interpolated values in that order instead of the rendered text.
\<close>

record DayScore =
  day_date :: string
  score :: int
  conditions :: "real \<times> real \<times> string \<times> real"

definition goodConditions :: "string list" where
  "goodConditions = [''sunny'', ''clear'', ''partly cloudy'']"

text \<open>
  The body of the \<open>forEach\<close> callback: \<open>score\<close> starts at 0 and is added to three times.
  \<open>avgTemp\<close> is \<open>(day.maxTempF + day.minTempF) / 2\<close>: the sum is rounded to a double,
  and so is its half.
\<close>

definition dayScore :: "ForecastDay \<Rightarrow> int" where
  "dayScore day =
     (let score0 = 0;
          avgTemp = js_div (js_add (maxTempF day) (minTempF day)) 2;
          score1 = (if avgTemp \<ge> 65 \<and> avgTemp \<le> 80 then score0 + 3
                    else if avgTemp \<ge> 50 \<and> avgTemp \<le> 85 then score0 + 2
                    else score0 + 1);
          score2 = (if chanceOfRain day < 20 then score1 + 3
                    else if chanceOfRain day < 40 then score1 + 2
                    else if chanceOfRain day < 60 then score1 + 1
                    else score1);
          score3 = (if list_ex (\<lambda>c. includes_str (toLowerCase (condition day)) c) goodConditions
                    then score2 + 2 else score2)
      in score3)"

text \<open>The value of \<open>avgTemp\<close> in that callback.\<close>

definition avgTemp :: "ForecastDay \<Rightarrow> real" where
  "avgTemp day = js_div (js_add (maxTempF day) (minTempF day)) 2"

definition scoreEntry :: "ForecastDay \<Rightarrow> DayScore" where
  "scoreEntry day =
     \<lparr> day_date = date day,
       score = dayScore day,
       conditions = (minTempF day, maxTempF day, condition day, chanceOfRain day) \<rparr>"

text \<open>
  \<open>goodWeatherDays\<close> before the sort: empty unless the detailed forecast is present
  (\<open>None\<close> is \<open>null\<close>/\<open>undefined\<close>) and non-empty, else one entry per day, in order.
\<close>

definition scoreDays :: "ForecastDay list option \<Rightarrow> DayScore list" where
  "scoreDays detailedForecast =
     (case detailedForecast of
        None \<Rightarrow> []
      | Some days \<Rightarrow> if length days > 0 then map scoreEntry days else [])"

text \<open>\<open>goodWeatherDays.sort((a, b) => b.score - a.score)\<close>\<close>

definition byScoreDesc :: "DayScore \<Rightarrow> DayScore \<Rightarrow> int" where
  "byScoreDesc a b = score b - score a"

definition rankDays :: "DayScore list \<Rightarrow> DayScore list" where
  "rankDays goodWeatherDays = array_sort byScoreDesc goodWeatherDays"


section \<open>The three terms of the score, as the specification words them\<close>

definition contains_ci :: "string \<Rightarrow> string \<Rightarrow> bool" where
  "contains_ci text kw = sublist (toLowerCase kw) (toLowerCase text)"

definition temperature_term :: "real \<Rightarrow> int" where
  "temperature_term avg =
     (if 65 \<le> avg \<and> avg \<le> 80 then 3 else if 50 \<le> avg \<and> avg \<le> 85 then 2 else 1)"

definition precipitation_term :: "real \<Rightarrow> int" where
  "precipitation_term rain =
     (if rain < 20 then 3 else if rain < 40 then 2 else if rain < 60 then 1 else 0)"

definition condition_bonus :: "string \<Rightarrow> int" where
  "condition_bonus text =
     (if contains_ci text ''sunny'' \<or> contains_ci text ''clear''
         \<or> contains_ci text ''partly cloudy'' then 2 else 0)"



section \<open>\<open>planParkVisit\<close>: the visit report\<close>

text \<open>
  What a rejected promise or a thrown exception carries: an \<open>Error\<close> with its message,
  either the failure of an HTTP call (network failure or a status outside 2xx) or a
  \<open>TypeError\<close> of the runtime; \<open>null\<close> or \<open>undefined\<close>; or any other value, which has
  no message.
\<close>

datatype js_error = TransientIOError string | TypeError string | ThrownNullish | ThrownValue

record Park =
  name :: string
  parkCode :: "string option"

record Alert =
  title :: string
  description :: string
  category :: string

text \<open>
  The four awaited calls of the handler, each returning a value (\<open>Inr\<close>) or rejecting
  (\<open>Inl\<close>). \<open>None\<close> stands for \<open>null\<close>/\<open>undefined\<close>, which the handler tests for
  with \<open>!park\<close>, \<open>!forecast\<close> and \<open>detailedForecast && ...\<close>. The weather service
  is a collaborator of the handler; only its two calls are modelled.
\<close>

record services =
  getParkById :: "string \<Rightarrow> js_error + Park option"
  getAlertsByPark :: "string \<Rightarrow> js_error + Alert list"
  get7DayForecastByLocation :: "string \<Rightarrow> js_error + ForecastDay list option"
  getDetailedForecast :: "string \<Rightarrow> js_error + ForecastDay list option"

text \<open>
  The response text is built by appending to \<open>response\<close>. The model keeps the sequence
  of appended pieces, one constructor per template, with the interpolated values as
  arguments:
  \<^item> \<open>Title n\<close>: "# Visit Planning for n" and an empty line;
  \<^item> \<open>AlertsHeading\<close>: "## (warning sign) Important Alerts";
  \<^item> \<open>AlertItem t d\<close>: "- **t**: d..." where \<open>d\<close> is the first 100 code units of the
    description;
  \<^item> \<open>BlankLine\<close>: a line break;
  \<^item> \<open>OutlookHeading\<close>: "## 7-Day Weather Outlook";
  \<^item> \<open>ForecastNotAvailable\<close>: "Weather forecast not available." and an empty line;
  \<^item> \<open>OutlookItem day\<close>: "- **date**: min F to max F, condition";
  \<^item> \<open>RecommendedHeading\<close>: "## Recommended Visit Days" and the sentence "Based on the
    weather forecast, here are the best days to visit:";
  \<^item> \<open>RecommendedItem i d\<close>: "i. **date**: conditions";
  \<^item> \<open>TipsHeading\<close>: "## Planning Tips"; \<open>Tips k\<close>: the three tip lines for Yosemite,
    for the Grand Canyon, or the generic ones;
  \<^item> \<open>TripHeading s e\<close>: "## Your Trip: s to e";
  \<^item> \<open>TripHasData\<close>: "We have some weather forecast data for your trip dates!";
  \<^item> \<open>TripWeatherHeading\<close>: "Weather during your visit:";
  \<^item> \<open>TripItem day\<close>: "- **date**: min F to max F, condition";
  \<^item> \<open>TripOutside\<close>: "Your trip dates are outside our current 3-day forecast window."
\<close>

datatype tips_kind = YosemiteTips | GrandCanyonTips | GenericTips

datatype fragment =
    Title string
  | AlertsHeading
  | AlertItem string string
  | BlankLine
  | OutlookHeading
  | ForecastNotAvailable
  | OutlookItem ForecastDay
  | RecommendedHeading
  | RecommendedItem nat DayScore
  | TipsHeading
  | Tips tips_kind
  | TripHeading string string
  | TripHasData
  | TripWeatherHeading
  | TripItem ForecastDay
  | TripOutside

text \<open>
  What the handler returns: "Could not find park with code: c", the report, or, from
  the \<open>catch\<close> around the whole body, "Error planning park visit: " followed by the
  message of what was caught.
\<close>

datatype tool_text = ParkNotFound string | Report "fragment list" | PlanError js_error

text \<open>
  The \<open>catch\<close> block logs the error and builds its text from \<open>error.message\<close>. Reading
  a property of \<open>null\<close> or \<open>undefined\<close> throws, and nothing catches that: the handler
  rejects (\<open>Inl\<close>). For every other value the text is returned (\<open>Inr\<close>).
\<close>

definition catchPlanError :: "js_error \<Rightarrow> js_error + tool_text" where
  "catchPlanError e =
     (case e of
        ThrownNullish \<Rightarrow> Inl (TypeError ''Cannot read properties of null (reading message)'')
      | _ \<Rightarrow> Inr (PlanError e))"

text \<open>The alerts put in front of the report.\<close>

definition closureAlerts :: "Alert list \<Rightarrow> Alert list" where
  "closureAlerts alerts =
     filter (\<lambda>a. includes_str (toLowerCase (title a)) ''closure''
               \<or> includes_str (toLowerCase (title a)) ''closed''
               \<or> includes_str (toLowerCase (category a)) ''closure'') alerts"

definition alertsSection :: "Alert list \<Rightarrow> fragment list" where
  "alertsSection alerts =
     (let cl = closureAlerts alerts
      in if length cl > 0
         then [AlertsHeading] @ map (\<lambda>alert. AlertItem (title alert) (take 100 (description alert))) cl
              @ [BlankLine]
         else [])"

definition outlookSection :: "ForecastDay list option \<Rightarrow> fragment list" where
  "outlookSection forecast =
     [OutlookHeading] @
     (case forecast of
        None \<Rightarrow> [ForecastNotAvailable]
      | Some fc \<Rightarrow> if length fc = 0 then [ForecastNotAvailable]
                   else map OutlookItem fc @ [BlankLine])"

text \<open>\<open>goodWeatherDays.slice(0, 3).forEach((day, index) => ...)\<close>, numbered from 1.\<close>

definition recommendedSection :: "DayScore list \<Rightarrow> fragment list" where
  "recommendedSection goodWeatherDays =
     (if length goodWeatherDays > 0
      then [RecommendedHeading]
           @ map (\<lambda>(index, day). RecommendedItem (index + 1) day)
                 (enumerate 0 (take 3 goodWeatherDays))
           @ [BlankLine]
      else [])"

definition tipsSection :: "Park \<Rightarrow> fragment list" where
  "tipsSection park =
     [TipsHeading] @
     (if parkCode park = Some ''yose'' then [Tips YosemiteTips]
      else if parkCode park = Some ''grca'' then [Tips GrandCanyonTips]
      else [Tips GenericTips])
     @ [BlankLine]"

text \<open>
  \<open>new Date(s)\<close> is a parameter of the model: \<open>newDate s\<close> is the time value of the
  date in milliseconds, \<open>None\<close> for an invalid date (time value \<open>NaN\<close>). Comparing two
  dates with \<open><=\<close> or \<open>>=\<close> compares the time values and is false as soon as one of
  them is \<open>NaN\<close>.
\<close>

definition date_le :: "int option \<Rightarrow> int option \<Rightarrow> bool" where
  "date_le a b = (case (a, b) of (Some x, Some y) \<Rightarrow> x \<le> y | _ \<Rightarrow> False)"

definition date_ge :: "int option \<Rightarrow> int option \<Rightarrow> bool" where
  "date_ge a b = (case (a, b) of (Some x, Some y) \<Rightarrow> x \<ge> y | _ \<Rightarrow> False)"

text \<open>A string is truthy when it is there and not empty (\<open>startDate && endDate\<close>).\<close>

definition truthy_str :: "string option \<Rightarrow> bool" where
  "truthy_str s = (case s of None \<Rightarrow> False | Some v \<Rightarrow> v \<noteq> [])"

definition tripForecast :: "(string \<Rightarrow> int option) \<Rightarrow> string \<Rightarrow> string \<Rightarrow> ForecastDay list
    \<Rightarrow> ForecastDay list" where
  "tripForecast newDate startDate endDate forecast =
     (let tripStartDate = newDate startDate; tripEndDate = newDate endDate
      in filter (\<lambda>day. let dayDate = newDate (date day)
                       in date_ge dayDate tripStartDate \<and> date_le dayDate tripEndDate) forecast)"

definition tripSection :: "(string \<Rightarrow> int option) \<Rightarrow> ForecastDay list option
    \<Rightarrow> string option \<Rightarrow> string option \<Rightarrow> fragment list" where
  "tripSection newDate forecast startDate endDate =
     (if truthy_str startDate \<and> truthy_str endDate
      then [TripHeading (the startDate) (the endDate)] @
        (let tripStartDate = newDate (the startDate); tripEndDate = newDate (the endDate)
         in case forecast of
              None \<Rightarrow> []
            | Some fc \<Rightarrow>
                if length fc > 0
                then (let forecastStartDate = newDate (date (fc ! 0));
                          forecastEndDate = newDate (date (fc ! (length fc - 1)))
                      in if date_le tripStartDate forecastEndDate
                            \<and> date_ge tripEndDate forecastStartDate
                         then [TripHasData] @
                           (let tf = tripForecast newDate (the startDate) (the endDate) fc
                            in if length tf > 0
                               then [TripWeatherHeading] @ map TripItem tf
                               else [TripOutside])
                         else [TripOutside])
                else [])
      else [])"

definition composeReport :: "(string \<Rightarrow> int option) \<Rightarrow> Park \<Rightarrow> Alert list
    \<Rightarrow> ForecastDay list option \<Rightarrow> ForecastDay list option
    \<Rightarrow> string option \<Rightarrow> string option \<Rightarrow> fragment list" where
  "composeReport newDate park alerts forecast detailedForecast startDate endDate =
     (let goodWeatherDays = rankDays (scoreDays detailedForecast)
      in [Title (name park)]
         @ alertsSection alerts
         @ outlookSection forecast
         @ recommendedSection goodWeatherDays
         @ tipsSection park
         @ tripSection newDate forecast startDate endDate)"

text \<open>
  The handler: four awaits in sequence inside one \<open>try\<close>; the first rejection ends in
  the \<open>catch\<close>. The result is what the handler returns (\<open>Inr\<close>) or what it rejects
  with (\<open>Inl\<close>).
\<close>

definition planParkVisit :: "services \<Rightarrow> (string \<Rightarrow> int option)
    \<Rightarrow> string \<Rightarrow> string option \<Rightarrow> string option \<Rightarrow> js_error + tool_text" where
  "planParkVisit svc newDate code startDate endDate =
     (case getParkById svc code of
        Inl e \<Rightarrow> catchPlanError e
      | Inr None \<Rightarrow> Inr (ParkNotFound code)
      | Inr (Some park) \<Rightarrow>
         (case getAlertsByPark svc code of
            Inl e \<Rightarrow> catchPlanError e
          | Inr alerts \<Rightarrow>
             (case get7DayForecastByLocation svc (name park) of
                Inl e \<Rightarrow> catchPlanError e
              | Inr forecast \<Rightarrow>
                 (case getDetailedForecast svc (name park) of
                    Inl e \<Rightarrow> catchPlanError e
                  | Inr detailedForecast \<Rightarrow>
                      Inr (Report (composeReport newDate park alerts forecast detailedForecast
                                     startDate endDate))))))"

text \<open>The pieces of a report that a property reads off.\<close>

fun tripItems :: "fragment list \<Rightarrow> ForecastDay list" where
  "tripItems [] = []"
| "tripItems (TripItem d # fs) = d # tripItems fs"
| "tripItems (f # fs) = tripItems fs"

text \<open>
  A reader for the date-only form \<open>YYYY-MM-DD\<close>, which \<open>new Date\<close> reads as midnight
  UTC of that day: the number of days since 1970-01-01 times 86400000. Anything that is
  not ten code units of that form naming a day of the calendar gives \<open>None\<close>.
\<close>

definition digit_val :: "char \<Rightarrow> int option" where
  "digit_val c =
     (let n = (of_char c :: nat) in if 48 \<le> n \<and> n \<le> 57 then Some (int n - 48) else None)"

fun digits_val :: "string \<Rightarrow> int option" where
  "digits_val [] = None"
| "digits_val [c] = digit_val c"
| "digits_val cs =
     (case (digits_val (butlast cs), digit_val (last cs)) of
        (Some hi, Some lo) \<Rightarrow> Some (10 * hi + lo)
      | _ \<Rightarrow> None)"

definition is_leap :: "int \<Rightarrow> bool" where
  "is_leap y = (y mod 4 = 0 \<and> (y mod 100 \<noteq> 0 \<or> y mod 400 = 0))"

definition days_in_month :: "int \<Rightarrow> int \<Rightarrow> int" where
  "days_in_month y m =
     (if m = 2 then (if is_leap y then 29 else 28)
      else if m = 4 \<or> m = 6 \<or> m = 9 \<or> m = 11 then 30 else 31)"

definition days_from_civil :: "int \<Rightarrow> int \<Rightarrow> int \<Rightarrow> int" where
  "days_from_civil y m d =
     (let y' = (if m \<le> 2 then y - 1 else y);
          era = y' div 400;
          yoe = y' - era * 400;
          doy = (153 * (if m > 2 then m - 3 else m + 9) + 2) div 5 + d - 1;
          doe = yoe * 365 + yoe div 4 - yoe div 100 + doy
      in era * 146097 + doe - 719468)"

definition isoDate :: "string \<Rightarrow> int option" where
  "isoDate s =
     (if length s = 10 \<and> s ! 4 = CHR ''-'' \<and> s ! 7 = CHR ''-''
      then (case (digits_val (take 4 s), digits_val (take 2 (drop 5 s)),
                  digits_val (drop 8 s)) of
              (Some y, Some m, Some d) \<Rightarrow>
                if 1 \<le> m \<and> m \<le> 12 \<and> 1 \<le> d \<and> d \<le> days_in_month y m
                then Some (days_from_civil y m d * 86400000) else None
            | _ \<Rightarrow> None)
      else None)"


section \<open>The recreation service: data\<close>

text \<open>
  JavaScript numbers that come out of \<open>parseFloat\<close> or go into a length bound: a finite
  value, \<open>NaN\<close> or an infinity. A number is truthy unless it is 0 or \<open>NaN\<close>;
  comparisons with \<open>NaN\<close> are false.
\<close>

datatype jsnum = NaN | NegInf | Fin real | PosInf

definition truthy_num :: "jsnum option \<Rightarrow> bool" where
  "truthy_num n = (case n of None \<Rightarrow> False | Some NaN \<Rightarrow> False | Some (Fin x) \<Rightarrow> x \<noteq> 0
                   | Some _ \<Rightarrow> True)"

fun num_le :: "jsnum \<Rightarrow> jsnum \<Rightarrow> bool" where
  "num_le NaN _ = False"
| "num_le _ NaN = False"
| "num_le NegInf _ = True"
| "num_le _ PosInf = True"
| "num_le (Fin x) (Fin y) = (x \<le> y)"
| "num_le _ _ = False"

definition num_ge :: "jsnum \<Rightarrow> jsnum \<Rightarrow> bool" where
  "num_ge a b = num_le b a"

text \<open>\<open>a || b\<close> on an optional number.\<close>

definition num_or :: "jsnum option \<Rightarrow> jsnum \<Rightarrow> jsnum" where
  "num_or a b = (if truthy_num a then the a else b)"

text \<open>
  One entry of an attribute list. The service reads the properties \<open>AttributeName\<close>,
  \<open>AttributeKey\<close> and \<open>AttributeValue\<close>; \<open>None\<close> is a property that is not there.
  Values are strings, as the facility API delivers them.
\<close>

record Attribute =
  AttributeName :: "string option"
  AttributeKey :: "string option"
  AttributeValue :: "string option"

text \<open>
  The property \<open>Attributes\<close> of a facility, typed \<open>any\<close> in the source, by the shapes
  the code tells apart: \<open>undefined\<close> or \<open>null\<close>; an array of entries; an object that
  is not an array and whose property \<open>ATTRIBUTES\<close> is an array of entries; any other
  value.
\<close>

datatype raw_attributes =
    NoAttributes
  | FlatList "Attribute list"
  | NestedContainer "Attribute list"
  | OtherValue

text \<open>An element of \<open>RECDATA\<close> in a facility listing, with the properties the service reads.\<close>

record RawFacility =
  FacilityID :: nat
  FacilityName :: "string option"
  FacilityTypeDescription :: "string option"
  FacilityDescription :: "string option"
  FacilityLatitude :: "real option"
  FacilityLongitude :: "real option"
  Attributes :: raw_attributes

record RecArea =
  RecAreaID :: nat
  RecAreaName :: "string option"

record Trail =
  id_t :: string
  name_t :: "string option"
  parkCode_t :: string
  length_t :: "jsnum option"
  difficulty_t :: "string option"
  description_t :: "string option"
  elevationGain :: "jsnum option"
  trailType :: "string option"
  surfaceType :: "string option"
  trailUse :: "string list"
  trailhead :: "(real \<times> real \<times> string option) option"

record TrailQuery =
  trailId :: "string option"
  difficulty :: "string option"
  minLength :: "jsnum option"
  maxLength :: "jsnum option"

text \<open>
  \<open>this.http.get(url)\<close>, one function per URL pattern the service builds. Each returns
  what the service reads from the decoded body, or rejects:
  \<^item> \<open>get_recareas_query q\<close>: \<open>/recareas?query=q\<close>, the property \<open>RECDATA\<close>;
  \<^item> \<open>get_recarea_facilities i\<close>: \<open>/recareas/i/facilities\<close>, the property \<open>RECDATA\<close>;
  \<^item> \<open>get_facilities_query q\<close>: \<open>/facilities?query=q\<close>, the property \<open>RECDATA\<close>;
  \<^item> \<open>get_facility i\<close>: \<open>/facilities/i\<close>; \<open>None\<close> when \<open>RECDATA\<close> is falsy, else
    the property \<open>ATTRIBUTES\<close> of \<open>RECDATA\<close>.
\<close>

record http =
  get_recareas_query :: "string \<Rightarrow> js_error + RecArea list option"
  get_recarea_facilities :: "nat \<Rightarrow> js_error + RawFacility list option"
  get_facilities_query :: "string \<Rightarrow> js_error + RawFacility list option"
  get_facility :: "nat \<Rightarrow> js_error + raw_attributes option"

text \<open>
  What \<open>JSON.parse\<close> makes of the "Activities" attribute, as far as the service looks
  at it: a syntax error, a value that is not an array, or an array. An element of the
  array is a string, \<open>null\<close>, or anything else, of which the truthy properties \<open>name\<close>
  and \<open>id\<close> are read. \<open>JSON.parse\<close> and \<open>parseFloat\<close> are parameters of the model.
\<close>

datatype json_item = JsonString string | JsonNull | JsonOther "string option" "string option"

datatype parsed = SyntaxError | NotArray | JsonArray "json_item list"


section \<open>The recreation service: static tables\<close>

text \<open>
  Lookups in the object literals are lookups among their own keys; park codes and
  identifiers are not names of properties that every object inherits.
\<close>

definition knownMappings :: "(string \<times> nat) list" where
  "knownMappings =
     [ (''yose'', 2991), (''grca'', 2733), (''zion'', 3042), (''yell'', 3039),
       (''glac'', 2725), (''romo'', 2959), (''seki'', 2979), (''olym'', 2918),
       (''acad'', 2674), (''grsm'', 2734) ]"

definition parkMap :: "(string \<times> string) list" where
  "parkMap =
     [ (''yose'', ''Yosemite''), (''grca'', ''Grand Canyon''), (''zion'', ''Zion''),
       (''yell'', ''Yellowstone''), (''glac'', ''Glacier''),
       (''romo'', ''Rocky Mountain''), (''seki'', ''Sequoia Kings Canyon''),
       (''olym'', ''Olympic''), (''acad'', ''Acadia''),
       (''grsm'', ''Great Smoky Mountains''), (''dena'', ''Denali''),
       (''jotr'', ''Joshua Tree''), (''arch'', ''Arches''), (''brca'', ''Bryce Canyon''),
       (''cany'', ''Canyonlands''), (''care'', ''Capitol Reef''),
       (''cave'', ''Carlsbad Caverns''), (''chis'', ''Channel Islands''),
       (''crla'', ''Crater Lake''), (''depo'', ''Death Valley''),
       (''ever'', ''Everglades''), (''gumo'', ''Guadalupe Mountains''),
       (''havo'', ''Hawaii Volcanoes''), (''hosp'', ''Hot Springs''),
       (''isro'', ''Isle Royale''), (''kefj'', ''Kenai Fjords''),
       (''lavo'', ''Lassen Volcanic''), (''maca'', ''Mammoth Cave''),
       (''meve'', ''Mesa Verde''), (''mora'', ''Mount Rainier''),
       (''noca'', ''North Cascades''), (''pefo'', ''Petrified Forest''),
       (''redw'', ''Redwood''), (''sagu'', ''Saguaro''), (''shen'', ''Shenandoah''),
       (''thro'', ''Theodore Roosevelt''), (''voya'', ''Voyageurs''),
       (''wica'', ''Wind Cave''), (''wrst'', ''Wrangell St Elias'') ]"

text \<open>The activity names tested one by one with \<open>getAttributeValue(n) === "Yes"\<close>.\<close>

definition activityNames :: "string list" where
  "activityNames =
     [ ''Arts and Culture'', ''Astronomy'', ''Auto and ATV'', ''Biking'', ''Boating'',
       ''Camping'', ''Canyoneering'', ''Caving'', ''Climbing'', ''Compass and GPS'',
       ''Dog Sledding'', ''Fishing'', ''Flying'', ''Food'', ''Golf'', ''Guided Tours'',
       ''Hands-On'', ''Hiking'', ''Horse Trekking'', ''Hunting and Gathering'',
       ''Ice Skating'', ''Junior Ranger Program'', ''Living History'', ''Museum Exhibits'',
       ''Paddling'', ''Park Film'', ''Playground'', ''SCUBA Diving'', ''Shopping'',
       ''Skiing'', ''Snorkeling'', ''Snow Play'', ''Snowmobiling'', ''Snowshoeing'',
       ''Surfing'', ''Swimming'', ''Team Sports'', ''Tubing'', ''Water Skiing'',
       ''Wildlife Watching'' ]"

definition activityIdMap :: "(string \<times> string) list" where
  "activityIdMap =
     [ (''09DF0950-D319-4557-A57E-04CD2F63FF42'', ''Arts and Culture''),
       (''13A57703-BB1A-41A2-94B8-53B692EB7238'', ''Astronomy''),
       (''5F723BAD-7359-48FC-98FA-631592256E35'', ''Auto and ATV''),
       (''7CE6E935-F839-4FEC-A63E-052B1DEF39D2'', ''Biking''),
       (''071BA73C-1D3C-46D4-A53C-00D5602F7F0E'', ''Boating''),
       (''A59947B7-3376-49B4-AD02-C0423E08C5F7'', ''Camping''),
       (''07CBCA6A-46B8-413F-8B6C-ABEDEBF9853E'', ''Canyoneering''),
       (''BA316D0F-92AE-4E00-8C80-DBD605DC58C3'', ''Caving''),
       (''B12FAAB9-713F-4B38-83E4-A273F5A43C77'', ''Climbing''),
       (''C11D3746-5063-4BD0-B245-7178D1AD866C'', ''Compass and GPS''),
       (''8C495067-8E94-4D78-BBD4-3379DACF6550'', ''Dog Sledding''),
       (''AE42B46C-E4B7-4889-A122-08FE180371AE'', ''Fishing''),
       (''D72206E4-6CD1-4441-A355-F8F1827466B1'', ''Flying''),
       (''1DFACD97-1B9C-4F5A-80F2-05593604799E'', ''Food''),
       (''3F3ABD16-2C52-4EAA-A1F6-4235DE5686F0'', ''Golf''),
       (''B33DC9B6-0B7D-4322-BAD7-A13A34C584A3'', ''Guided Tours''),
       (''42FD78B9-2B90-4AA9-BC43-F10E9FEA8B5A'', ''Hands-On''),
       (''BFF8C027-7C8F-480B-A5F8-CD8CE490BFBA'', ''Hiking''),
       (''0307955A-B65C-4CE4-A780-EB36BAAADF0B'', ''Horse Trekking''),
       (''8386EEAF-985F-4DE8-9037-CCF91975AC94'', ''Hunting and Gathering''),
       (''5FF5B286-E9C3-430E-B612-3380D8138600'', ''Ice Skating''),
       (''DF4A35E0-7983-4A3E-BC47-F37B872B0F25'', ''Junior Ranger Program''),
       (''B204DE60-5A24-43DD-8902-C81625A09A74'', ''Living History''),
       (''C8F98B28-3C10-41AE-AA99-092B3B398C43'', ''Museum Exhibits''),
       (''4D224BCA-C127-408B-AC75-A51563C42411'', ''Paddling''),
       (''0C0D142F-06B5-4BE1-8B44-491B90F93DEB'', ''Park Film''),
       (''7779241F-A70B-49BC-86F0-829AE332C708'', ''Playground''),
       (''42CF4021-8524-428E-866A-D33097A4A764'', ''SCUBA Diving''),
       (''24380E3F-AD9D-4E38-BF13-C8EEB21893E7'', ''Shopping''),
       (''F9B1D433-6B86-4804-AED7-B50A519A3B7C'', ''Skiing''),
       (''3EBF7EAC-68FC-4754-B6A4-0C38A1583D45'', ''Snorkeling''),
       (''C38B3C62-1BBF-4EA1-A1A2-35DE21B74C17'', ''Snow Play''),
       (''7C912B83-1B1B-4807-9B66-97C12211E48E'', ''Snowmobiling''),
       (''01D717BC-18BB-4FE4-95BA-6B13AD702038'', ''Snowshoeing''),
       (''AE3C95F5-E05B-4A28-81DD-1C5FD4BE88E2'', ''Surfing''),
       (''587BB2D3-EC35-41B2-B3F7-A39E2B088AEE'', ''Swimming''),
       (''94369BFD-F186-477E-8713-AE2A745154DA'', ''Team Sports''),
       (''4D06CEED-90C6-4B69-B264-32CC90B69BA6'', ''Tubing''),
       (''8A1C7B17-C2C6-4F7C-9539-EA1E19971D80'', ''Water Skiing''),
       (''0B685688-3405-4E2A-ABBA-E3069492EC50'', ''Wildlife Watching'') ]"


section \<open>The recreation service: resolving a park code\<close>

definition getParkNameFromCode :: "string \<Rightarrow> string option" where
  "getParkNameFromCode code =
     (case map_of parkMap code of
        Some n \<Rightarrow> if n \<noteq> [] then Some n else None
      | None \<Rightarrow> None)"

text \<open>
  \<open>Array.prototype.find\<close> with a callback that may throw: the first element for which
  the callback is true, \<open>None\<close> when there is none, the exception when the callback
  throws before that.
\<close>

fun find_js :: "('a \<Rightarrow> js_error + bool) \<Rightarrow> 'a list \<Rightarrow> js_error + 'a option" where
  "find_js p [] = Inr None"
| "find_js p (x # xs) =
     (case p x of Inl e \<Rightarrow> Inl e | Inr True \<Rightarrow> Inr (Some x) | Inr False \<Rightarrow> find_js p xs)"

text \<open>\<open>area.RecAreaName.toLowerCase()\<close> throws when the name is not there.\<close>

definition areaNameLower :: "RecArea \<Rightarrow> js_error + string" where
  "areaNameLower area =
     (case RecAreaName area of
        None \<Rightarrow> Inl (TypeError ''Cannot read properties of undefined (reading toLowerCase)'')
      | Some n \<Rightarrow> Inr (toLowerCase n))"

definition exactOrNationalPark :: "string \<Rightarrow> RecArea \<Rightarrow> js_error + bool" where
  "exactOrNationalPark parkName area =
     (case areaNameLower area of
        Inl e \<Rightarrow> Inl e
      | Inr n \<Rightarrow> Inr (n = toLowerCase parkName
                      \<or> includes_str n (toLowerCase parkName @ '' national park'')))"

definition containsParkName :: "string \<Rightarrow> RecArea \<Rightarrow> js_error + bool" where
  "containsParkName parkName area =
     (case areaNameLower area of
        Inl e \<Rightarrow> Inl e
      | Inr n \<Rightarrow> Inr (includes_str n (toLowerCase parkName)))"

text \<open>The body of the \<open>try\<close> in \<open>parkToRecAreaId\<close>; \<open>Inr None\<close> is \<open>return null\<close>.\<close>

definition searchRecArea :: "http \<Rightarrow> string \<Rightarrow> js_error + nat option" where
  "searchRecArea h code =
     (case getParkNameFromCode code of
        None \<Rightarrow> Inr None
      | Some parkName \<Rightarrow>
         (case get_recareas_query h parkName of
            Inl e \<Rightarrow> Inl e
          | Inr None \<Rightarrow> Inr None
          | Inr (Some recdata) \<Rightarrow>
              if length recdata = 0 then Inr None
              else (case find_js (exactOrNationalPark parkName) recdata of
                      Inl e \<Rightarrow> Inl e
                    | Inr (Some bestMatch) \<Rightarrow> Inr (Some (RecAreaID bestMatch))
                    | Inr None \<Rightarrow>
                       (case find_js (containsParkName parkName) recdata of
                          Inl e \<Rightarrow> Inl e
                        | Inr (Some bestMatch) \<Rightarrow> Inr (Some (RecAreaID bestMatch))
                        | Inr None \<Rightarrow> Inr (Some (RecAreaID (recdata ! 0)))))))"

text \<open>
  \<open>parkToRecAreaId\<close>: the table first (a truthy entry is returned), then the search
  inside \<open>try\<close>, whose \<open>catch\<close> logs the error and returns \<open>null\<close>.
\<close>

definition parkToRecAreaId :: "http \<Rightarrow> string \<Rightarrow> js_error + nat option" where
  "parkToRecAreaId h code =
     (if map_of knownMappings code \<noteq> None \<and> the (map_of knownMappings code) \<noteq> 0
      then Inr (map_of knownMappings code)
      else (case searchRecArea h code of
              Inl e \<Rightarrow> Inr None
            | Inr r \<Rightarrow> Inr r))"


section \<open>The recreation service: attributes\<close>

text \<open>The method \<open>getAttributeValue(facility, attributeName)\<close> used by the filters.\<close>

definition findAttribute :: "string \<Rightarrow> Attribute list \<Rightarrow> string option" where
  "findAttribute attributeName as =
     (case find (\<lambda>a. AttributeName a = Some attributeName \<or> AttributeKey a = Some attributeName) as of
        None \<Rightarrow> None
      | Some attr \<Rightarrow> AttributeValue attr)"

definition getAttributeValue :: "RawFacility \<Rightarrow> string \<Rightarrow> string option" where
  "getAttributeValue facility attributeName =
     (case Attributes facility of
        NoAttributes \<Rightarrow> None
      | FlatList as \<Rightarrow> findAttribute attributeName as
      | NestedContainer as \<Rightarrow> findAttribute attributeName as
      | OtherValue \<Rightarrow> None)"

text \<open>
  The closure \<open>getAttributeValue(name)\<close> inside \<open>mapTrailResponse\<close> is
  \<open>trail.Attributes?.find(a => a.AttributeName === name)\<close>: \<open>undefined\<close> for a missing
  container, a search by name in an array, and a \<open>TypeError\<close> for every other value,
  which has no method \<open>find\<close>. The container is the same in every call, so either all
  calls throw or none does; the first call is unconditional.
\<close>

definition attributeFinder :: "raw_attributes \<Rightarrow> js_error + (string \<Rightarrow> string option)" where
  "attributeFinder attrs =
     (case attrs of
        NoAttributes \<Rightarrow> Inr (\<lambda>name. None)
      | FlatList as \<Rightarrow>
          Inr (\<lambda>name. case find (\<lambda>a. AttributeName a = Some name) as of
                         None \<Rightarrow> None
                       | Some attr \<Rightarrow> AttributeValue attr)
      | NestedContainer as \<Rightarrow> Inl (TypeError ''trail.Attributes.find is not a function'')
      | OtherValue \<Rightarrow> Inl (TypeError ''trail.Attributes.find is not a function''))"

text \<open>\<open>Object.entries(activityIdMap).forEach\<close>: identifiers with value "Yes" add their name once.\<close>

definition addById :: "(string \<Rightarrow> string option) \<Rightarrow> string list \<Rightarrow> string list" where
  "addById gav trailUses =
     fold (\<lambda>(i, n) uses. if gav i = Some ''Yes'' \<and> n \<notin> set uses then uses @ [n] else uses)
       activityIdMap trailUses"

text \<open>
  The \<open>forEach\<close> over the parsed array. The second component tells whether an element
  made the callback throw (reading \<open>name\<close> of \<open>null\<close>); what was pushed before stays.
\<close>

fun addParsed :: "string list \<Rightarrow> json_item list \<Rightarrow> string list \<times> bool" where
  "addParsed uses [] = (uses, False)"
| "addParsed uses (JsonNull # rest) = (uses, True)"
| "addParsed uses (JsonString a # rest) =
     (if a \<notin> set uses then addParsed (uses @ [a]) rest else addParsed uses rest)"
| "addParsed uses (JsonOther nm ident # rest) =
     (if nm \<noteq> None \<and> the nm \<notin> set uses then addParsed (uses @ [the nm]) rest
      else if ident \<noteq> None \<and> map_of activityIdMap (the ident) \<noteq> None
              \<and> the (map_of activityIdMap (the ident)) \<notin> set uses
      then addParsed (uses @ [the (map_of activityIdMap (the ident))]) rest
      else addParsed uses rest)"

text \<open>\<open>split(',')\<close> and \<open>trim()\<close> of the \<open>catch\<close> branch.\<close>

fun split_on :: "char \<Rightarrow> string \<Rightarrow> string list" where
  "split_on sep [] = [[]]"
| "split_on sep (c # cs) =
     (if c = sep then [] # split_on sep cs
      else (case split_on sep cs of [] \<Rightarrow> [[c]] | w # ws \<Rightarrow> (c # w) # ws))"

definition is_space :: "char \<Rightarrow> bool" where
  "is_space c = ((of_char c :: nat) \<in> {9, 10, 11, 12, 13, 32, 160})"

definition trim :: "string \<Rightarrow> string" where
  "trim s = rev (dropWhile is_space (rev (dropWhile is_space s)))"

definition addSplit :: "string list \<Rightarrow> string \<Rightarrow> string list" where
  "addSplit trailUses activitiesAttribute =
     fold (\<lambda>activity uses.
             let trimmedActivity = trim activity
             in if trimmedActivity \<noteq> [] \<and> trimmedActivity \<notin> set uses
                then uses @ [trimmedActivity] else uses)
       (split_on CHR '','' activitiesAttribute) trailUses"

definition addActivities :: "(string \<Rightarrow> parsed) \<Rightarrow> string list \<Rightarrow> string option \<Rightarrow> string list" where
  "addActivities JSON_parse trailUses activitiesAttribute =
     (if truthy_str activitiesAttribute
      then (case JSON_parse (the activitiesAttribute) of
              SyntaxError \<Rightarrow> addSplit trailUses (the activitiesAttribute)
            | NotArray \<Rightarrow> trailUses
            | JsonArray activities \<Rightarrow>
               (case addParsed trailUses activities of
                  (uses, False) \<Rightarrow> uses
                | (uses, True) \<Rightarrow> addSplit uses (the activitiesAttribute)))
      else trailUses)"

text \<open>\<open>FacilityID.toString()\<close> of a whole number: its decimal digits.\<close>

function toString :: "nat \<Rightarrow> string" where
  "toString n =
     (if n < 10 then [char_of (48 + n)] else toString (n div 10) @ [char_of (48 + n mod 10)])"
  by pat_completeness auto
termination
  by (relation "measure id") auto

declare toString.simps [simp del]

definition truthy_real :: "real option \<Rightarrow> bool" where
  "truthy_real x = (case x of None \<Rightarrow> False | Some v \<Rightarrow> v \<noteq> 0)"

definition mapTrailResponse :: "(string \<Rightarrow> jsnum) \<Rightarrow> (string \<Rightarrow> parsed) \<Rightarrow> RawFacility \<Rightarrow> string
    \<Rightarrow> js_error + Trail" where
  "mapTrailResponse parseFloat JSON_parse trail code =
     (case attributeFinder (Attributes trail) of
        Inl e \<Rightarrow> Inl e
      | Inr gav \<Rightarrow>
         (let len = gav ''Trail Length'';
              difficulty = gav ''Trail Difficulty'';
              elevation = gav ''Elevation Gain'';
              surface = gav ''Trail Surface'';
              trailUses0 = filter (\<lambda>n. gav n = Some ''Yes'') activityNames;
              trailUses1 = addById gav trailUses0;
              trailUses2 = addActivities JSON_parse trailUses1 (gav ''Activities'')
          in Inr \<lparr> id_t = toString (FacilityID trail),
                   name_t = FacilityName trail,
                   parkCode_t = code,
                   length_t = (if truthy_str len then Some (parseFloat (the len)) else None),
                   difficulty_t = difficulty,
                   description_t = FacilityDescription trail,
                   elevationGain =
                     (if truthy_str elevation then Some (parseFloat (the elevation)) else None),
                   trailType = gav ''Trail Type'',
                   surfaceType = surface,
                   trailUse = trailUses2,
                   trailhead =
                     (if truthy_real (FacilityLatitude trail) \<and> truthy_real (FacilityLongitude trail)
                      then Some (the (FacilityLatitude trail), the (FacilityLongitude trail),
                                 FacilityName trail)
                      else None) \<rparr>))"


section \<open>The recreation service: \<open>getTrailsByPark\<close>\<close>

definition isTrailFacility :: "RawFacility \<Rightarrow> bool" where
  "isTrailFacility facility =
     (FacilityTypeDescription facility = Some ''Trail''
      \<or> (truthy_str (FacilityName facility)
          \<and> includes_str (toLowerCase (the (FacilityName facility))) ''trail''))"

text \<open>
  The candidates: the trail facilities of the listing, or, when there are none and the
  park has a name in the table, those of the keyword search for "name trail" (reading
  \<open>filter\<close> of a missing \<open>RECDATA\<close> throws).
\<close>

definition selectTrails :: "http \<Rightarrow> string \<Rightarrow> RawFacility list \<Rightarrow> js_error + RawFacility list" where
  "selectTrails h code recdata =
     (let trails = filter isTrailFacility recdata
      in if length trails = 0
         then (case getParkNameFromCode code of
                 None \<Rightarrow> Inr trails
               | Some parkName \<Rightarrow>
                  (case get_facilities_query h (parkName @ '' trail'') of
                     Inl e \<Rightarrow> Inl e
                   | Inr None \<Rightarrow>
                       Inl (TypeError ''Cannot read properties of undefined (reading filter)'')
                   | Inr (Some searchData) \<Rightarrow> Inr (filter isTrailFacility searchData)))
         else Inr trails)"

text \<open>
  One turn of the loop over the candidates: the detail fetch inside its own \<open>try\<close>.
  With a truthy \<open>RECDATA\<close> the candidate is pushed with \<open>Attributes\<close> set from it; with a
  falsy one, or when the fetch rejects, the candidate is pushed as it is.
\<close>

definition fetchDetail :: "http \<Rightarrow> RawFacility \<Rightarrow> RawFacility" where
  "fetchDetail h trail =
     (case get_facility h (FacilityID trail) of
        Inl e \<Rightarrow> trail
      | Inr None \<Rightarrow> trail
      | Inr (Some attrs) \<Rightarrow> trail \<lparr> Attributes := attrs \<rparr>)"

definition detailedTrails :: "http \<Rightarrow> RawFacility list \<Rightarrow> RawFacility list" where
  "detailedTrails h trails = map (fetchDetail h) trails"

text \<open>The four optional criteria, each applied only when its value is truthy.\<close>

definition byTrailId :: "string \<Rightarrow> RawFacility list \<Rightarrow> RawFacility list" where
  "byTrailId wanted ts = filter (\<lambda>trail. toString (FacilityID trail) = wanted) ts"

definition byDifficulty :: "string \<Rightarrow> RawFacility list \<Rightarrow> RawFacility list" where
  "byDifficulty wanted ts =
     filter (\<lambda>trail.
        let difficultyAttr = getAttributeValue trail ''Trail Difficulty''
        in truthy_str difficultyAttr
           \<and> includes_str (toLowerCase (the difficultyAttr)) (toLowerCase wanted)) ts"

definition byMinLength :: "(string \<Rightarrow> jsnum) \<Rightarrow> jsnum option \<Rightarrow> RawFacility list \<Rightarrow> RawFacility list" where
  "byMinLength parseFloat bound ts =
     filter (\<lambda>trail.
        let lengthAttr = getAttributeValue trail ''Trail Length''
        in truthy_str lengthAttr
           \<and> num_ge (parseFloat (the lengthAttr)) (num_or bound (Fin 0))) ts"

definition byMaxLength :: "(string \<Rightarrow> jsnum) \<Rightarrow> jsnum option \<Rightarrow> RawFacility list \<Rightarrow> RawFacility list" where
  "byMaxLength parseFloat bound ts =
     filter (\<lambda>trail.
        let lengthAttr = getAttributeValue trail ''Trail Length''
        in truthy_str lengthAttr
           \<and> num_le (parseFloat (the lengthAttr)) (num_or bound PosInf)) ts"

definition applyQuery :: "(string \<Rightarrow> jsnum) \<Rightarrow> TrailQuery option \<Rightarrow> RawFacility list
    \<Rightarrow> RawFacility list" where
  "applyQuery parseFloat query ts =
     (case query of
        None \<Rightarrow> ts
      | Some q \<Rightarrow>
         (let f1 = (if truthy_str (trailId q) then byTrailId (the (trailId q)) ts else ts);
              f2 = (if truthy_str (difficulty q) then byDifficulty (the (difficulty q)) f1 else f1);
              f3 = (if truthy_num (minLength q) then byMinLength parseFloat (minLength q) f2 else f2);
              f4 = (if truthy_num (maxLength q) then byMaxLength parseFloat (maxLength q) f3 else f3)
          in f4))"

text \<open>\<open>filteredTrails.map(...)\<close>: the first call that throws ends the whole map.\<close>

fun map_throwing :: "('a \<Rightarrow> js_error + 'b) \<Rightarrow> 'a list \<Rightarrow> js_error + 'b list" where
  "map_throwing f [] = Inr []"
| "map_throwing f (x # xs) =
     (case f x of
        Inl e \<Rightarrow> Inl e
      | Inr y \<Rightarrow> (case map_throwing f xs of Inl e \<Rightarrow> Inl e | Inr ys \<Rightarrow> Inr (y # ys)))"

text \<open>
  \<open>getTrailsByPark\<close>. The outer \<open>catch\<close> logs and throws the error again, so a rejection
  of the listing, of the keyword search or of the final mapping is the rejection of the
  call. A falsy area identifier (\<open>null\<close> or 0) and an empty listing give no trails.
\<close>

definition getTrailsByPark :: "http \<Rightarrow> (string \<Rightarrow> jsnum) \<Rightarrow> (string \<Rightarrow> parsed) \<Rightarrow> string
    \<Rightarrow> TrailQuery option \<Rightarrow> js_error + Trail list" where
  "getTrailsByPark h parseFloat JSON_parse code query =
     (case parkToRecAreaId h code of
        Inl e \<Rightarrow> Inl e
      | Inr None \<Rightarrow> Inr []
      | Inr (Some recAreaId) \<Rightarrow>
          if recAreaId = 0 then Inr []
          else (case get_recarea_facilities h recAreaId of
                  Inl e \<Rightarrow> Inl e
                | Inr None \<Rightarrow> Inr []
                | Inr (Some recdata) \<Rightarrow>
                    if length recdata = 0 then Inr []
                    else (case selectTrails h code recdata of
                            Inl e \<Rightarrow> Inl e
                          | Inr trails \<Rightarrow>
                              map_throwing
                                (\<lambda>trail. mapTrailResponse parseFloat JSON_parse trail code)
                                (applyQuery parseFloat query (detailedTrails h trails)))))"

text \<open>
  The containers on which the closure of \<open>mapTrailResponse\<close> can be called: a missing
  one and an array.
\<close>

definition hasFind :: "raw_attributes \<Rightarrow> bool" where
  "hasFind attrs = (case attrs of NoAttributes \<Rightarrow> True | FlatList as \<Rightarrow> True | _ \<Rightarrow> False)"


section \<open>Example inputs for the visit report\<close>

definition ex_day :: "string \<Rightarrow> real \<Rightarrow> real \<Rightarrow> real \<Rightarrow> string \<Rightarrow> ForecastDay" where
  "ex_day d lo hi rain c =
     \<lparr> date = d, minTempF = lo, maxTempF = hi, chanceOfRain = rain, condition = c \<rparr>"

definition ex_forecast :: "ForecastDay list" where
  "ex_forecast =
     [ ex_day ''2024-05-03'' 60 80 10 ''Sunny'',
       ex_day ''2024-05-04'' 55 70 30 ''Partly cloudy'',
       ex_day ''2024-05-05'' 50 65 70 ''Moderate rain'',
       ex_day ''2024-05-06'' 58 78 0 ''Clear'',
       ex_day ''2024-05-07'' 62 84 15 ''Sunny'',
       ex_day ''2024-05-08'' 90 100 80 ''Stormy'',
       ex_day ''2024-05-09'' 61 79 45 ''Overcast'',
       ex_day ''2024-05-10'' 59 77 5 ''Sunny'' ]"

text \<open>
  A day whose temperatures are the double 80 and the next double above it: their sum
  lies halfway between two doubles.
\<close>

definition ex_day_tie :: ForecastDay where
  "ex_day_tie = ex_day ''2024-05-03'' 80 (80 + 1 / 2 ^ 46) 10 ''Sunny''"

definition ex_park :: Park where
  "ex_park = \<lparr> name = ''Yosemite National Park'', parkCode = Some ''yose'' \<rparr>"

definition ex_alert_category_closed :: Alert where
  "ex_alert_category_closed =
     \<lparr> title = ''Glacier Point Road'', description = ''No access for vehicles until further notice.'',
       category = ''Area Closed'' \<rparr>"

text \<open>Every call succeeds; no alerts, an empty forecast.\<close>

definition ex_services :: services where
  "ex_services =
     \<lparr> getParkById = (\<lambda>code. Inr (Some ex_park)),
       getAlertsByPark = (\<lambda>code. Inr []),
       get7DayForecastByLocation = (\<lambda>loc. Inr (Some [])),
       getDetailedForecast = (\<lambda>loc. Inr (Some [])) \<rparr>"

definition ex_failure :: js_error where
  "ex_failure = TransientIOError ''HTTP 503''"


section \<open>Example inputs for the recreation service\<close>

text \<open>
  Stand-ins for \<open>parseFloat\<close> and \<open>JSON.parse\<close> in the examples. The first reads plain
  decimal numerals (digits, optionally a point and more digits) and gives \<open>NaN\<close> for
  every other string; the second rejects every string. The examples only pass them
  plain decimal numerals or strings without a numeric prefix, and strings that are not
  JSON.
\<close>

definition ex_parseFloat :: "string \<Rightarrow> jsnum" where
  "ex_parseFloat s =
     (case split_on CHR ''.'' s of
        [i] \<Rightarrow> (case digits_val i of Some a \<Rightarrow> Fin (real_of_int a) | None \<Rightarrow> NaN)
      | [i, f] \<Rightarrow>
          (case (digits_val i, digits_val f) of
             (Some a, Some b) \<Rightarrow> Fin (real_of_int a + real_of_int b / 10 ^ length f)
           | _ \<Rightarrow> NaN)
      | _ \<Rightarrow> NaN)"

definition ex_JSON_parse :: "string \<Rightarrow> parsed" where
  "ex_JSON_parse s = SyntaxError"

definition ex_attr :: "string \<Rightarrow> string \<Rightarrow> Attribute" where
  "ex_attr n v = \<lparr> AttributeName = Some n, AttributeKey = None, AttributeValue = Some v \<rparr>"

definition ex_facility :: "nat \<Rightarrow> string \<Rightarrow> string \<Rightarrow> RawFacility" where
  "ex_facility i n ty =
     \<lparr> FacilityID = i, FacilityName = Some n, FacilityTypeDescription = Some ty,
       FacilityDescription = None, FacilityLatitude = Some 37.7, FacilityLongitude = Some (-119.6),
       Attributes = NoAttributes \<rparr>"

text \<open>The listing of an area: three trails and a campground.\<close>

definition ex_listing :: "RawFacility list" where
  "ex_listing =
     [ ex_facility 101 ''Mist Trail'' ''Trail'',
       ex_facility 102 ''Upper Pines'' ''Campground'',
       ex_facility 103 ''Four Mile TRAIL'' ''Facility'',
       ex_facility 104 ''Panorama'' ''Trail'' ]"

definition ex_candidates :: "RawFacility list" where
  "ex_candidates =
     [ ex_facility 101 ''Mist Trail'' ''Trail'',
       ex_facility 103 ''Four Mile TRAIL'' ''Facility'',
       ex_facility 104 ''Panorama'' ''Trail'' ]"

text \<open>A facility whose type descriptor, but not its name, contains "trail".\<close>

definition ex_trailhead :: RawFacility where
  "ex_trailhead = ex_facility 105 ''Happy Isles'' ''Hiking trail access''"

text \<open>
  The details: facility 101 has a list of attributes, the fetch for 103 fails, 104 has
  a list with an unreadable length.
\<close>

definition ex_details :: "nat \<Rightarrow> js_error + raw_attributes option" where
  "ex_details i =
     (if i = 101 then Inr (Some (FlatList [ex_attr ''Trail Length'' ''4.5'',
                                            ex_attr ''Trail Difficulty'' ''Moderate'',
                                            ex_attr ''Hiking'' ''Yes'',
                                            ex_attr ''Activities'' ''Hiking, Wildlife Watching'']))
      else if i = 103 then Inl (TransientIOError ''HTTP 500'')
      else if i = 104 then Inr (Some (FlatList [ex_attr ''Trail Length'' ''abc'']))
      else Inr None)"

definition ex_http :: http where
  "ex_http =
     \<lparr> get_recareas_query = (\<lambda>q. Inr (Some [])),
       get_recarea_facilities = (\<lambda>i. if i = 2991 then Inr (Some ex_listing) else Inr (Some [])),
       get_facilities_query = (\<lambda>q. Inr (Some [ex_facility 101 ''Mist Trail'' ''Trail'', ex_trailhead])),
       get_facility = ex_details \<rparr>"

text \<open>The same facility with its attributes in a nested container.\<close>

definition ex_nested_trail :: RawFacility where
  "ex_nested_trail =
     (ex_facility 101 ''Mist Trail'' ''Trail'')
       \<lparr> Attributes := NestedContainer [ex_attr ''Trail Length'' ''4.5''] \<rparr>"

definition ex_http_nested :: http where
  "ex_http_nested =
     ex_http \<lparr> get_facility := (\<lambda>i. Inr (Some (NestedContainer [ex_attr ''Trail Length'' ''4.5'']))) \<rparr>"

text \<open>
  Three candidates again: the details of 101 come in a nested container, the fetch for
  103 fails, 104 has a list.
\<close>

definition ex_http_mixed :: http where
  "ex_http_mixed =
     ex_http \<lparr> get_facility :=
       (\<lambda>i. if i = 101 then Inr (Some (NestedContainer [ex_attr ''Trail Length'' ''4.5'']))
            else ex_details i) \<rparr>"

definition ex_no_query :: TrailQuery where
  "ex_no_query = \<lparr> trailId = None, difficulty = None, minLength = None, maxLength = None \<rparr>"


section \<open>Facts about strings\<close>

lemma startsWith_prefix: "startsWith s p = prefix p s"
  by (induction s p rule: startsWith.induct) auto

lemma includes_str_sublist: "includes_str s p = sublist p s"
proof (induction s)
  case Nil
  show ?case by simp
next
  case (Cons c cs)
  show ?case
  proof (cases p)
    case Nil
    then show ?thesis by simp
  next
    case (Cons q qs)
    with Cons.IH show ?thesis
      by (simp add: startsWith_prefix sublist_Cons_right)
  qed
qed

lemma includes_str_iff:
  "includes_str s p \<longleftrightarrow> (\<exists>pre post. s = pre @ p @ post)"
  by (simp add: includes_str_sublist sublist_def)

lemma toLowerCase_Nil: "toLowerCase [] = []"
  by (simp add: toLowerCase_def)

lemma toLowerCase_keywords:
  "toLowerCase ''sunny'' = ''sunny''"
  "toLowerCase ''clear'' = ''clear''"
  "toLowerCase ''partly cloudy'' = ''partly cloudy''"
  "toLowerCase ''closure'' = ''closure''"
  "toLowerCase ''closed'' = ''closed''"
  "toLowerCase ''trail'' = ''trail''"
  by code_simp+

lemma contains_ci_keyword:
  "toLowerCase kw = kw \<Longrightarrow> contains_ci text kw = includes_str (toLowerCase text) kw"
  by (simp add: contains_ci_def includes_str_sublist)


section \<open>The per-day score\<close>

lemma condition_bonus_code:
  "condition_bonus text =
     (if list_ex (\<lambda>c. includes_str (toLowerCase text) c) goodConditions then 2 else 0)"
  by (simp add: condition_bonus_def goodConditions_def contains_ci_keyword toLowerCase_keywords)

lemma dayScore_terms:
  "dayScore day =
     temperature_term (avgTemp day)
       + precipitation_term (chanceOfRain day) + condition_bonus (condition day)"
  unfolding dayScore_def avgTemp_def Let_def condition_bonus_code temperature_term_def
    precipitation_term_def
  by simp

lemma condition_bonus_Sunny: "condition_bonus ''Sunny'' = 2"
  unfolding condition_bonus_code by code_simp

lemma condition_bonus_Stormy: "condition_bonus ''Stormy'' = 0"
  unfolding condition_bonus_code by code_simp

text \<open>
  The specification takes the temperature term from the average of minimum and
  maximum. The code takes it from the average it computes, and the two differ when the
  sum is not a double: for the doubles 80 and 80 + 2^-46 the exact average is above 80,
  which makes the term 2 and the score 7, while the sum is rounded to 160, the computed
  average is 80, the term is 3 and the score is 8.
\<close>

theorem score_exact_average_counterexample:
  "round_double (minTempF ex_day_tie) = minTempF ex_day_tie
   \<and> round_double (maxTempF ex_day_tie) = maxTempF ex_day_tie
   \<and> temperature_term ((minTempF ex_day_tie + maxTempF ex_day_tie) / 2)
       + precipitation_term (chanceOfRain ex_day_tie) + condition_bonus (condition ex_day_tie) = 7
   \<and> dayScore ex_day_tie = 8"
  by code_simp

text \<open>
  C1 (amended). For every forecast day the score pushed onto \<open>goodWeatherDays\<close> is the
  sum of the temperature term (3 when the average lies in [65,80], else 2 when it lies
  in [50,85], else 1), the precipitation term (3 below 20, 2 below 40, 1 below 60, else
  0) and the condition bonus (2 when the condition text contains "sunny", "clear" or
  "partly cloudy" whatever the case of its letters, else 0), where the average is the
  one the code computes in double arithmetic: the sum of maximum and minimum rounded to
  a double, halved and rounded again. It is the exact average whenever the exact sum
  and its half are doubles. A day with computed average 70, rain chance 10 and
  condition "Sunny" scores 8; a day with computed average 95, rain chance 80 and
  condition "Stormy" scores 1.
\<close>

theorem score_is_sum_of_three_terms:
  "map score (scoreDays (Some days)) = map dayScore days
   \<and> dayScore day =
       temperature_term (avgTemp day)
         + precipitation_term (chanceOfRain day) + condition_bonus (condition day)
   \<and> (round_double (maxTempF day + minTempF day) = maxTempF day + minTempF day
        \<and> round_double ((maxTempF day + minTempF day) / 2) = (maxTempF day + minTempF day) / 2
        \<longrightarrow> avgTemp day = (minTempF day + maxTempF day) / 2)
   \<and> (avgTemp day = 70 \<and> chanceOfRain day = 10 \<and> condition day = ''Sunny''
        \<longrightarrow> dayScore day = 8)
   \<and> (avgTemp day = 95 \<and> chanceOfRain day = 80 \<and> condition day = ''Stormy''
        \<longrightarrow> dayScore day = 1)"
proof -
  have entries: "map score (scoreDays (Some days)) = map dayScore days"
    by (simp add: scoreDays_def scoreEntry_def comp_def)
  have exact: "avgTemp day = (minTempF day + maxTempF day) / 2"
    if "round_double (maxTempF day + minTempF day) = maxTempF day + minTempF day
        \<and> round_double ((maxTempF day + minTempF day) / 2) = (maxTempF day + minTempF day) / 2"
    using that by (simp add: avgTemp_def js_add_def js_div_def add.commute)
  have sunny: "dayScore day = 8"
    if "avgTemp day = 70 \<and> chanceOfRain day = 10 \<and> condition day = ''Sunny''"
    using that
    by (simp add: dayScore_terms temperature_term_def precipitation_term_def
        condition_bonus_Sunny)
  have stormy: "dayScore day = 1"
    if "avgTemp day = 95 \<and> chanceOfRain day = 80 \<and> condition day = ''Stormy''"
    using that
    by (simp add: dayScore_terms temperature_term_def precipitation_term_def
        condition_bonus_Stormy)
  from entries dayScore_terms exact sunny stormy show ?thesis by blast
qed

lemma ex_averages:
  "round_double (maxTempF (ex_day ''2024-05-03'' 60 80 10 ''Sunny'')
                  + minTempF (ex_day ''2024-05-03'' 60 80 10 ''Sunny''))
     = maxTempF (ex_day ''2024-05-03'' 60 80 10 ''Sunny'')
       + minTempF (ex_day ''2024-05-03'' 60 80 10 ''Sunny'')
   \<and> round_double ((maxTempF (ex_day ''2024-05-03'' 60 80 10 ''Sunny'')
                     + minTempF (ex_day ''2024-05-03'' 60 80 10 ''Sunny'')) / 2)
     = (maxTempF (ex_day ''2024-05-03'' 60 80 10 ''Sunny'')
        + minTempF (ex_day ''2024-05-03'' 60 80 10 ''Sunny'')) / 2"
  "avgTemp (ex_day ''2024-05-03'' 60 80 10 ''Sunny'') = 70
   \<and> chanceOfRain (ex_day ''2024-05-03'' 60 80 10 ''Sunny'') = 10
   \<and> condition (ex_day ''2024-05-03'' 60 80 10 ''Sunny'') = ''Sunny''"
  "avgTemp (ex_day ''2024-05-08'' 90 100 80 ''Stormy'') = 95
   \<and> chanceOfRain (ex_day ''2024-05-08'' 90 100 80 ''Stormy'') = 80
   \<and> condition (ex_day ''2024-05-08'' 90 100 80 ''Stormy'') = ''Stormy''"
  by code_simp+

theorem score_is_sum_of_three_terms_witness:
  "avgTemp (ex_day ''2024-05-03'' 60 80 10 ''Sunny'')
     = (minTempF (ex_day ''2024-05-03'' 60 80 10 ''Sunny'')
        + maxTempF (ex_day ''2024-05-03'' 60 80 10 ''Sunny'')) / 2
   \<and> dayScore (ex_day ''2024-05-03'' 60 80 10 ''Sunny'') = 8
   \<and> dayScore (ex_day ''2024-05-08'' 90 100 80 ''Stormy'') = 1"
  using score_is_sum_of_three_terms [of "[]" "ex_day ''2024-05-03'' 60 80 10 ''Sunny''"]
        score_is_sum_of_three_terms [of "[]" "ex_day ''2024-05-08'' 90 100 80 ''Stormy''"]
        ex_averages
  by blast


section \<open>Ranking\<close>

lemma mset_insert_cmp: "mset (insert_cmp cmp x ys) = add_mset x (mset ys)"
  by (induction ys) simp_all

lemma mset_array_sort: "mset (array_sort cmp xs) = mset xs"
  unfolding array_sort_def by (induction xs) (simp_all add: mset_insert_cmp)

lemma set_insert_cmp: "set (insert_cmp cmp x ys) = insert x (set ys)"
  by (induction ys) auto

lemma sorted_insert_byScoreDesc:
  "sorted_wrt (\<lambda>a b. score a \<ge> score b) ys \<Longrightarrow>
   sorted_wrt (\<lambda>a b. score a \<ge> score b) (insert_cmp byScoreDesc x ys)"
proof (induction ys)
  case Nil
  show ?case by simp
next
  case (Cons y ys)
  show ?case
  proof (cases "byScoreDesc x y \<le> 0")
    case True
    then have "score y \<le> score x" by (simp add: byScoreDesc_def)
    with Cons.prems True show ?thesis by fastforce
  next
    case False
    then have "score x \<le> score y" by (simp add: byScoreDesc_def)
    with Cons False show ?thesis by (auto simp: set_insert_cmp)
  qed
qed

lemma sorted_array_sort_byScoreDesc:
  "sorted_wrt (\<lambda>a b. score a \<ge> score b) (array_sort byScoreDesc xs)"
  unfolding array_sort_def by (induction xs) (simp_all add: sorted_insert_byScoreDesc)

text \<open>
  An inserted entry only moves past entries of strictly higher score, so within one
  score it stays in front of everything that was behind it.
\<close>

lemma filter_insert_byScoreDesc:
  "filter (\<lambda>d. score d = k) (insert_cmp byScoreDesc x ys) =
     (if score x = k then x # filter (\<lambda>d. score d = k) ys
      else filter (\<lambda>d. score d = k) ys)"
  by (induction ys) (auto simp: byScoreDesc_def)

lemma filter_array_sort_byScoreDesc:
  "filter (\<lambda>d. score d = k) (array_sort byScoreDesc xs) = filter (\<lambda>d. score d = k) xs"
  unfolding array_sort_def by (induction xs) (simp_all add: filter_insert_byScoreDesc)

text \<open>
  The ranked list does not depend on how the sort is carried out: any arrangement of
  the entries that is descending by score and keeps the input order within each score
  is the ranked list.
\<close>

lemma insert_cmp_insort:
  "insert_cmp byScoreDesc x ys = insort_key (\<lambda>d. - score d) x ys"
  by (induction ys) (simp_all add: byScoreDesc_def)

lemma rankDays_sort_key: "rankDays xs = sort_key (\<lambda>d. - score d) xs"
  unfolding rankDays_def array_sort_def
  by (induction xs) (simp_all add: insert_cmp_insort)

lemma stable_descending_unique:
  assumes "mset ys = mset xs"
    and "sorted_wrt (\<lambda>a b. score a \<ge> score b) ys"
    and "\<forall>k. filter (\<lambda>d. score d = k) ys = filter (\<lambda>d. score d = k) xs"
  shows "ys = rankDays xs"
proof -
  have "sorted (map (\<lambda>d. - score d) ys)"
    using assms(2) by (simp add: sorted_map)
  moreover have "filter (\<lambda>x. - score k = - score x) ys = filter (\<lambda>x. - score k = - score x) xs"
    for k :: DayScore
    using assms(3) [rule_format, of "score k"] by (simp add: eq_commute)
  ultimately have "sort_key (\<lambda>d. - score d) xs = ys"
    using assms(1) by (intro properties_for_sort_key) auto
  then show ?thesis by (simp add: rankDays_sort_key)
qed

text \<open>
  C2. Ranking is a stable descending sort by score: the ranked list holds the scored
  entries, each as often as before, with scores never increasing from front to back,
  and for every score the entries with that score appear in the order they had in the
  input.
\<close>

theorem ranking_is_stable_descending_sort:
  "mset (rankDays goodWeatherDays) = mset goodWeatherDays
   \<and> sorted_wrt (\<lambda>a b. score a \<ge> score b) (rankDays goodWeatherDays)
   \<and> (\<forall>k. filter (\<lambda>d. score d = k) (rankDays goodWeatherDays)
            = filter (\<lambda>d. score d = k) goodWeatherDays)"
  unfolding rankDays_def
  by (simp add: mset_array_sort sorted_array_sort_byScoreDesc filter_array_sort_byScoreDesc)

section \<open>The closure filter\<close>

text \<open>
  The specification has the filter look for "closure" or "closed" in the title or in
  the category. The code does not look for "closed" in the category: an alert whose
  category, and nothing else, contains "closed" is left out.
\<close>

theorem closure_filter_counterexample:
  "contains_ci (category ex_alert_category_closed) ''closed''
   \<and> ex_alert_category_closed \<notin> set (closureAlerts [ex_alert_category_closed])"
  by code_simp

text \<open>
  C4 (amended). The closure filter keeps, in their order, exactly the alerts whose
  title contains "closure" or "closed", or whose category contains "closure", whatever
  the case of the letters; the category is not searched for "closed".
\<close>

theorem closure_filter_selects:
  "closureAlerts alerts =
     filter (\<lambda>a. contains_ci (title a) ''closure'' \<or> contains_ci (title a) ''closed''
               \<or> contains_ci (category a) ''closure'') alerts
   \<and> (a \<in> set (closureAlerts alerts) \<longleftrightarrow>
        a \<in> set alerts \<and>
        (contains_ci (title a) ''closure'' \<or> contains_ci (title a) ''closed''
          \<or> contains_ci (category a) ''closure''))"
  by (auto simp add: closureAlerts_def contains_ci_keyword toLowerCase_keywords)


section \<open>Failing and empty sources of the visit report\<close>

lemma alertsSection_empty:
  "closureAlerts alerts = [] \<Longrightarrow> alertsSection alerts = []"
  by (simp add: alertsSection_def)

lemma outlookSection_not_available:
  "forecast = None \<or> forecast = Some [] \<Longrightarrow> outlookSection forecast = [OutlookHeading, ForecastNotAvailable]"
  by (auto simp: outlookSection_def)

lemma set_outlookSection_alerts: "AlertsHeading \<notin> set (outlookSection forecast)"
  by (auto simp: outlookSection_def split: option.splits)

lemma set_recommendedSection_alerts: "AlertsHeading \<notin> set (recommendedSection ds)"
  by (auto simp: recommendedSection_def)

lemma set_tipsSection_alerts: "AlertsHeading \<notin> set (tipsSection park)"
  by (auto simp: tipsSection_def)

lemma set_tripSection_alerts: "AlertsHeading \<notin> set (tripSection newDate forecast s e)"
  by (auto simp: tripSection_def Let_def split: option.splits)

text \<open>
  The specification has the report built even when a source other than the park has
  failed. The code does not: when the alerts cannot be fetched, the handler returns the
  error text and no report.
\<close>

theorem report_aborts_counterexample:
  "planParkVisit (ex_services \<lparr> getAlertsByPark := (\<lambda>code. Inl ex_failure) \<rparr>)
      isoDate ''yose'' None None = Inr (PlanError ex_failure)"
  by (simp add: planParkVisit_def ex_services_def catchPlanError_def ex_failure_def)

lemma catchPlanError_cases:
  "(e \<noteq> ThrownNullish \<longrightarrow> catchPlanError e = Inr (PlanError e))
   \<and> (e = ThrownNullish \<longrightarrow> (\<exists>t. catchPlanError e = Inl (TypeError t)))"
  by (cases e) (simp_all add: catchPlanError_def)

text \<open>
  C3 (amended). The report is not built source by source: a failure of any of the four
  fetches (park, alerts, 7-day forecast, detailed forecast) ends in the one \<open>catch\<close>
  around the body. When the fetch rejects with anything but \<open>null\<close> or \<open>undefined\<close>,
  the handler returns the error text in place of the report; when it rejects with
  \<open>null\<close> or \<open>undefined\<close>, the \<open>catch\<close> itself throws a \<open>TypeError\<close> and the handler
  rejects. When all four fetches succeed and the park exists, a report is returned; in
  it an empty or missing 7-day forecast gives the explicit line "Weather forecast not
  available.", while an empty list of closure alerts leaves the alerts section out
  without any such line.
\<close>

theorem planParkVisit_failures:
  "(\<forall>e. getParkById svc code = Inl e
          \<or> (\<exists>park. getParkById svc code = Inr (Some park)
                \<and> (getAlertsByPark svc code = Inl e
                    \<or> (\<exists>alerts. getAlertsByPark svc code = Inr alerts
                          \<and> (get7DayForecastByLocation svc (name park) = Inl e
                              \<or> (\<exists>forecast. get7DayForecastByLocation svc (name park) = Inr forecast
                                    \<and> getDetailedForecast svc (name park) = Inl e)))))
        \<longrightarrow> (e \<noteq> ThrownNullish \<longrightarrow>
               planParkVisit svc newDate code startDate endDate = Inr (PlanError e))
            \<and> (e = ThrownNullish \<longrightarrow>
               (\<exists>t. planParkVisit svc newDate code startDate endDate = Inl (TypeError t))))
   \<and> (\<forall>park alerts forecast detailed. getParkById svc code = Inr (Some park)
        \<and> getAlertsByPark svc code = Inr alerts
        \<and> get7DayForecastByLocation svc (name park) = Inr forecast
        \<and> getDetailedForecast svc (name park) = Inr detailed \<longrightarrow>
        (\<exists>fs. planParkVisit svc newDate code startDate endDate = Inr (Report fs)
           \<and> (forecast = None \<or> forecast = Some [] \<longrightarrow> ForecastNotAvailable \<in> set fs)
           \<and> (closureAlerts alerts = [] \<longrightarrow> AlertsHeading \<notin> set fs)))"
proof (intro conjI allI impI)
  fix park alerts forecast detailed
  assume ok: "getParkById svc code = Inr (Some park)
        \<and> getAlertsByPark svc code = Inr alerts
        \<and> get7DayForecastByLocation svc (name park) = Inr forecast
        \<and> getDetailedForecast svc (name park) = Inr detailed"
  let ?fs = "composeReport newDate park alerts forecast detailed startDate endDate"
  have r: "planParkVisit svc newDate code startDate endDate = Inr (Report ?fs)"
    using ok by (simp add: planParkVisit_def)
  have na: "ForecastNotAvailable \<in> set ?fs" if "forecast = None \<or> forecast = Some []"
    using outlookSection_not_available [OF that] by (simp add: composeReport_def)
  have al: "AlertsHeading \<notin> set ?fs" if "closureAlerts alerts = []"
    using alertsSection_empty [OF that] set_outlookSection_alerts set_recommendedSection_alerts
      set_tipsSection_alerts set_tripSection_alerts
    by (simp add: composeReport_def)
  from r na al
  show "\<exists>fs. planParkVisit svc newDate code startDate endDate = Inr (Report fs)
           \<and> (forecast = None \<or> forecast = Some [] \<longrightarrow> ForecastNotAvailable \<in> set fs)
           \<and> (closureAlerts alerts = [] \<longrightarrow> AlertsHeading \<notin> set fs)"
    by blast
next
  fix e
  assume failed: "getParkById svc code = Inl e
          \<or> (\<exists>park. getParkById svc code = Inr (Some park)
                \<and> (getAlertsByPark svc code = Inl e
                    \<or> (\<exists>alerts. getAlertsByPark svc code = Inr alerts
                          \<and> (get7DayForecastByLocation svc (name park) = Inl e
                              \<or> (\<exists>forecast. get7DayForecastByLocation svc (name park) = Inr forecast
                                    \<and> getDetailedForecast svc (name park) = Inl e)))))"
  then have caught: "planParkVisit svc newDate code startDate endDate = catchPlanError e"
    by (auto simp: planParkVisit_def)
  {
    assume "e \<noteq> ThrownNullish"
    with caught catchPlanError_cases [of e]
    show "planParkVisit svc newDate code startDate endDate = Inr (PlanError e)" by simp
  next
    assume "e = ThrownNullish"
    with caught catchPlanError_cases [of e]
    show "\<exists>t. planParkVisit svc newDate code startDate endDate = Inl (TypeError t)" by simp
  }
qed

theorem planParkVisit_failures_witness:
  "planParkVisit (ex_services \<lparr> getParkById := (\<lambda>code. Inl ex_failure) \<rparr>)
      isoDate ''yose'' None None = Inr (PlanError ex_failure)
   \<and> planParkVisit (ex_services \<lparr> getAlertsByPark := (\<lambda>code. Inl (TypeError ''data'')) \<rparr>)
      isoDate ''yose'' None None = Inr (PlanError (TypeError ''data''))
   \<and> planParkVisit (ex_services \<lparr> get7DayForecastByLocation := (\<lambda>loc. Inl ex_failure) \<rparr>)
      isoDate ''yose'' None None = Inr (PlanError ex_failure)
   \<and> planParkVisit (ex_services \<lparr> getDetailedForecast := (\<lambda>loc. Inl ex_failure) \<rparr>)
      isoDate ''yose'' None None = Inr (PlanError ex_failure)
   \<and> (\<exists>t. planParkVisit (ex_services \<lparr> getAlertsByPark := (\<lambda>code. Inl ThrownNullish) \<rparr>)
      isoDate ''yose'' None None = Inl (TypeError t))
   \<and> (\<exists>fs. planParkVisit ex_services isoDate ''yose'' None None = Inr (Report fs)
          \<and> ForecastNotAvailable \<in> set fs \<and> AlertsHeading \<notin> set fs)"
  using planParkVisit_failures
          [of "ex_services \<lparr> getParkById := (\<lambda>code. Inl ex_failure) \<rparr>" "''yose''" isoDate None None]
        planParkVisit_failures
          [of "ex_services \<lparr> getAlertsByPark := (\<lambda>code. Inl (TypeError ''data'')) \<rparr>" "''yose''"
              isoDate None None]
        planParkVisit_failures
          [of "ex_services \<lparr> get7DayForecastByLocation := (\<lambda>loc. Inl ex_failure) \<rparr>" "''yose''"
              isoDate None None]
        planParkVisit_failures
          [of "ex_services \<lparr> getDetailedForecast := (\<lambda>loc. Inl ex_failure) \<rparr>" "''yose''"
              isoDate None None]
        planParkVisit_failures
          [of "ex_services \<lparr> getAlertsByPark := (\<lambda>code. Inl ThrownNullish) \<rparr>" "''yose''"
              isoDate None None]
        planParkVisit_failures [of ex_services "''yose''" isoDate None None]
  by (simp add: ex_services_def closureAlerts_def ex_failure_def)


section \<open>The trip window\<close>

lemma tripItems_append: "tripItems (xs @ ys) = tripItems xs @ tripItems ys"
  by (induction xs rule: tripItems.induct) simp_all

lemma tripItems_map_TripItem: "tripItems (map TripItem ds) = ds"
  by (induction ds) simp_all

lemma tripItems_alertsSection: "tripItems (alertsSection alerts) = []"
proof -
  have "tripItems (map (\<lambda>alert. AlertItem (title alert) (take 100 (description alert))) xs) = []"
    for xs :: "Alert list"
    by (induction xs) simp_all
  then show ?thesis by (simp add: alertsSection_def Let_def tripItems_append)
qed

lemma tripItems_outlookSection: "tripItems (outlookSection forecast) = []"
proof -
  have "tripItems (map OutlookItem xs) = []" for xs
    by (induction xs) simp_all
  then show ?thesis by (simp add: outlookSection_def tripItems_append split: option.splits)
qed

lemma tripItems_recommendedSection: "tripItems (recommendedSection ds) = []"
proof -
  have "tripItems (map (\<lambda>(index, day). RecommendedItem (index + 1) day) xs) = []"
    for xs :: "(nat \<times> DayScore) list"
    by (induction xs) auto
  then show ?thesis by (simp add: recommendedSection_def tripItems_append)
qed

lemma tripItems_tipsSection: "tripItems (tipsSection park) = []"
  by (simp add: tipsSection_def)

lemma no_trip_lines_before_trip_section:
  "TripHasData \<notin> set (alertsSection alerts)" "TripOutside \<notin> set (alertsSection alerts)"
  "TripHasData \<notin> set (outlookSection forecast)" "TripOutside \<notin> set (outlookSection forecast)"
  "TripHasData \<notin> set (recommendedSection ds)" "TripOutside \<notin> set (recommendedSection ds)"
  "TripHasData \<notin> set (tipsSection park)" "TripOutside \<notin> set (tipsSection park)"
  by (auto simp: alertsSection_def Let_def outlookSection_def recommendedSection_def
      tipsSection_def split: option.splits)

text \<open>Everything the report says about the trip comes from its last section.\<close>

lemma composeReport_trip:
  "tripItems (composeReport newDate park alerts forecast detailed s e)
     = tripItems (tripSection newDate forecast s e)"
  "TripHasData \<in> set (composeReport newDate park alerts forecast detailed s e)
     \<longleftrightarrow> TripHasData \<in> set (tripSection newDate forecast s e)"
  "TripOutside \<in> set (composeReport newDate park alerts forecast detailed s e)
     \<longleftrightarrow> TripOutside \<in> set (tripSection newDate forecast s e)"
  by (simp_all add: composeReport_def Let_def tripItems_append tripItems_alertsSection
      tripItems_outlookSection tripItems_recommendedSection tripItems_tipsSection
      no_trip_lines_before_trip_section)

lemma tripForecast_window:
  "newDate startDate = Some tStart \<Longrightarrow> newDate endDate = Some tEnd \<Longrightarrow>
   tripForecast newDate startDate endDate forecast =
     filter (\<lambda>d. case newDate (date d) of None \<Rightarrow> False | Some t \<Rightarrow> tStart \<le> t \<and> t \<le> tEnd)
       forecast"
  unfolding tripForecast_def Let_def
  by (rule filter_cong) (auto simp: date_le_def date_ge_def split: option.splits)

lemma tripSection_supplied:
  assumes "startDate \<noteq> []" "endDate \<noteq> []"
    and "newDate startDate = Some tStart" "newDate endDate = Some tEnd"
    and "forecast \<noteq> []"
    and "newDate (date (hd forecast)) = Some fStart"
    and "newDate (date (last forecast)) = Some fEnd"
  shows "tripSection newDate (Some forecast) (Some startDate) (Some endDate) =
     [TripHeading startDate endDate] @
     (if tStart \<le> fEnd \<and> tEnd \<ge> fStart
      then [TripHasData] @
        (let tf = tripForecast newDate startDate endDate forecast
         in if tf \<noteq> [] then [TripWeatherHeading] @ map TripItem tf else [TripOutside])
      else [TripOutside])"
  using assms
  by (simp add: tripSection_def truthy_str_def Let_def date_le_def date_ge_def
      hd_conv_nth last_conv_nth)

text \<open>
  C9. With a trip window \<open>[start, end]\<close> supplied and a non-empty forecast running from
  \<open>fStart\<close> (its first day) to \<open>fEnd\<close> (its last day), the report says that there is
  forecast data for the trip exactly when \<open>start \<le> fEnd\<close> and \<open>end \<ge> fStart\<close>. Then the
  forecast days it lists for the trip are exactly the forecast days dated within
  \<open>[start, end]\<close>, bounds included, in forecast order; otherwise it lists none and says
  that the trip dates are outside the forecast window.
\<close>

theorem trip_window_overlap:
  assumes "startDate \<noteq> []" and "endDate \<noteq> []"
    and "newDate startDate = Some tStart" and "newDate endDate = Some tEnd"
    and "forecast \<noteq> []"
    and "newDate (date (hd forecast)) = Some fStart"
    and "newDate (date (last forecast)) = Some fEnd"
  shows "(TripHasData \<in> set (composeReport newDate park alerts (Some forecast) detailed
                                (Some startDate) (Some endDate))
            \<longleftrightarrow> tStart \<le> fEnd \<and> tEnd \<ge> fStart)
    \<and> (tStart \<le> fEnd \<and> tEnd \<ge> fStart \<longrightarrow>
          tripItems (composeReport newDate park alerts (Some forecast) detailed
                       (Some startDate) (Some endDate))
          = filter (\<lambda>d. case newDate (date d) of None \<Rightarrow> False
                         | Some t \<Rightarrow> tStart \<le> t \<and> t \<le> tEnd) forecast)
    \<and> (\<not> (tStart \<le> fEnd \<and> tEnd \<ge> fStart) \<longrightarrow>
          TripOutside \<in> set (composeReport newDate park alerts (Some forecast) detailed
                                (Some startDate) (Some endDate))
          \<and> tripItems (composeReport newDate park alerts (Some forecast) detailed
                          (Some startDate) (Some endDate)) = [])"
proof -
  note sec = tripSection_supplied [OF assms]
  note win = tripForecast_window [OF assms(3) assms(4), of forecast]
  have has: "TripHasData \<in> set (tripSection newDate (Some forecast) (Some startDate) (Some endDate))
               \<longleftrightarrow> tStart \<le> fEnd \<and> tEnd \<ge> fStart"
    unfolding sec by (auto simp: Let_def)
  have items: "tripItems (tripSection newDate (Some forecast) (Some startDate) (Some endDate))
                 = filter (\<lambda>d. case newDate (date d) of None \<Rightarrow> False
                                | Some t \<Rightarrow> tStart \<le> t \<and> t \<le> tEnd) forecast"
    if "tStart \<le> fEnd \<and> tEnd \<ge> fStart"
    unfolding sec using that win by (simp add: Let_def tripItems_map_TripItem)
  have out: "TripOutside \<in> set (tripSection newDate (Some forecast) (Some startDate) (Some endDate))
             \<and> tripItems (tripSection newDate (Some forecast) (Some startDate) (Some endDate)) = []"
    if "\<not> (tStart \<le> fEnd \<and> tEnd \<ge> fStart)"
    unfolding sec using that by auto
  from has items out show ?thesis
    unfolding composeReport_trip by blast
qed

lemma ex_forecast_dates:
  "isoDate ''2024-05-01'' = Some 1714521600000"
  "isoDate ''2024-05-05'' = Some 1714867200000"
  "isoDate ''2024-01-01'' = Some 1704067200000"
  "isoDate ''2024-01-05'' = Some 1704412800000"
  "isoDate (date (hd ex_forecast)) = Some 1714694400000"
  "isoDate (date (last ex_forecast)) = Some 1715299200000"
  by code_simp+

lemma ex_forecast_slice:
  "filter (\<lambda>d. case isoDate (date d) of None \<Rightarrow> False
               | Some t \<Rightarrow> 1714521600000 \<le> t \<and> t \<le> 1714867200000) ex_forecast
   = take 3 ex_forecast"
  by code_simp

theorem trip_window_overlap_witness:
  "TripHasData \<in> set (composeReport isoDate ex_park [] (Some ex_forecast) (Some ex_forecast)
                          (Some ''2024-05-01'') (Some ''2024-05-05''))
   \<and> tripItems (composeReport isoDate ex_park [] (Some ex_forecast) (Some ex_forecast)
                  (Some ''2024-05-01'') (Some ''2024-05-05'')) = take 3 ex_forecast
   \<and> TripHasData \<notin> set (composeReport isoDate ex_park [] (Some ex_forecast) (Some ex_forecast)
                          (Some ''2024-01-01'') (Some ''2024-01-05''))
   \<and> TripOutside \<in> set (composeReport isoDate ex_park [] (Some ex_forecast) (Some ex_forecast)
                          (Some ''2024-01-01'') (Some ''2024-01-05''))"
proof -
  have ne: "''2024-05-01'' \<noteq> []" "''2024-05-05'' \<noteq> []" "''2024-01-01'' \<noteq> []"
    "''2024-01-05'' \<noteq> []" "ex_forecast \<noteq> []"
    by (simp_all add: ex_forecast_def)
  from trip_window_overlap
         [OF ne(1) ne(2) ex_forecast_dates(1) ex_forecast_dates(2) ne(5)
             ex_forecast_dates(5) ex_forecast_dates(6), of ex_park "[]" "Some ex_forecast"]
       trip_window_overlap
         [OF ne(3) ne(4) ex_forecast_dates(3) ex_forecast_dates(4) ne(5)
             ex_forecast_dates(5) ex_forecast_dates(6), of ex_park "[]" "Some ex_forecast"]
  show ?thesis
    by (simp add: ex_forecast_slice)
qed


section \<open>Resolving a park code\<close>

text \<open>
  The specification has a failure of the search call reach the caller as an error of
  its own. In the code the caller gets \<open>null\<close>, which is also what it gets when the
  search finds no candidate.
\<close>

theorem resolve_failure_counterexample:
  "parkToRecAreaId (ex_http \<lparr> get_recareas_query := (\<lambda>q. Inl ex_failure) \<rparr>) ''dena'' = Inr None
   \<and> parkToRecAreaId (ex_http \<lparr> get_recareas_query := (\<lambda>q. Inr (Some [])) \<rparr>) ''dena'' = Inr None"
  by code_simp

lemma parkToRecAreaId_returns: "\<exists>r. parkToRecAreaId h code = Inr r"
  by (simp add: parkToRecAreaId_def split: sum.splits)

lemma parkToRecAreaId_search_failed:
  assumes "map_of knownMappings code = None" "getParkNameFromCode code = Some parkName"
    "get_recareas_query h parkName = Inl e"
  shows "parkToRecAreaId h code = Inr None"
  using assms by (simp add: parkToRecAreaId_def searchRecArea_def)

text \<open>
  C5 (amended). Resolution never rejects. For a park code that is not in the table of
  identifiers and has a name, a failure of the search call is caught inside
  \<open>parkToRecAreaId\<close> and becomes \<open>null\<close>, the value that also stands for "not found";
  \<open>getTrailsByPark\<close> then returns no trails.
\<close>

theorem resolve_failure_becomes_null:
  "(\<exists>r. parkToRecAreaId h code = Inr r)
   \<and> (map_of knownMappings code = None \<and> getParkNameFromCode code = Some parkName
        \<and> get_recareas_query h parkName = Inl e \<longrightarrow>
        parkToRecAreaId h code = Inr None
        \<and> getTrailsByPark h parseFloat JSON_parse code query = Inr [])"
proof (intro conjI impI)
  show "\<exists>r. parkToRecAreaId h code = Inr r" by (rule parkToRecAreaId_returns)
next
  assume a: "map_of knownMappings code = None \<and> getParkNameFromCode code = Some parkName
        \<and> get_recareas_query h parkName = Inl e"
  then show "parkToRecAreaId h code = Inr None"
    by (simp add: parkToRecAreaId_search_failed)
  then show "getTrailsByPark h parseFloat JSON_parse code query = Inr []"
    by (simp add: getTrailsByPark_def)
qed

lemma ex_dena:
  "map_of knownMappings ''dena'' = None \<and> getParkNameFromCode ''dena'' = Some ''Denali''"
  by code_simp

theorem resolve_failure_becomes_null_witness:
  "parkToRecAreaId (ex_http \<lparr> get_recareas_query := (\<lambda>q. Inl (TransientIOError ''timeout'')) \<rparr>)
      ''dena'' = Inr None
   \<and> getTrailsByPark (ex_http \<lparr> get_recareas_query := (\<lambda>q. Inl (TransientIOError ''timeout'')) \<rparr>)
        ex_parseFloat ex_JSON_parse ''dena'' None = Inr []"
  using resolve_failure_becomes_null
          [where h = "ex_http \<lparr> get_recareas_query := (\<lambda>q. Inl (TransientIOError ''timeout'')) \<rparr>"
             and code = "''dena''" and parkName = "''Denali''"
             and e = "TransientIOError ''timeout''" and parseFloat = ex_parseFloat
             and JSON_parse = ex_JSON_parse and query = None]
        ex_dena
  by simp


section \<open>Selecting the trail candidates\<close>

text \<open>
  The specification has the type descriptor searched for "trail" like the name. The
  code compares it with "Trail": a facility whose type descriptor contains "trail"
  without being exactly "Trail", and whose name does not contain it, is not a
  candidate, neither in the listing nor in the keyword search.
\<close>

theorem trail_selection_counterexample:
  "contains_ci (the (FacilityTypeDescription ex_trailhead)) ''trail''
   \<and> \<not> isTrailFacility ex_trailhead
   \<and> selectTrails ex_http ''yose'' [ex_trailhead] = Inr [ex_facility 101 ''Mist Trail'' ''Trail'']"
  by code_simp

lemma isTrailFacility_iff:
  "isTrailFacility f \<longleftrightarrow>
     FacilityTypeDescription f = Some ''Trail''
     \<or> (\<exists>n. FacilityName f = Some n \<and> contains_ci n ''trail'')"
  by (cases "FacilityName f")
     (auto simp: isTrailFacility_def truthy_str_def contains_ci_keyword toLowerCase_keywords
        toLowerCase_Nil)

text \<open>
  C8 (amended). A fetched facility is a trail candidate if and only if its type
  descriptor is exactly "Trail" or its name contains "trail" whatever the case of the
  letters. The candidates are the facilities of the listing that pass this test; when
  there are none and the park has a name, they are the facilities of the keyword
  search that pass the same test.
\<close>

theorem trail_selection_rule:
  "(isTrailFacility f \<longleftrightarrow>
      FacilityTypeDescription f = Some ''Trail''
      \<or> (\<exists>n. FacilityName f = Some n \<and> contains_ci n ''trail''))
   \<and> (filter isTrailFacility recdata \<noteq> [] \<longrightarrow>
        selectTrails h code recdata = Inr (filter isTrailFacility recdata))
   \<and> (filter isTrailFacility recdata = [] \<and> getParkNameFromCode code = Some parkName
        \<and> get_facilities_query h (parkName @ '' trail'') = Inr (Some searchData) \<longrightarrow>
        selectTrails h code recdata = Inr (filter isTrailFacility searchData))"
  by (simp add: isTrailFacility_iff selectTrails_def Let_def)

lemma ex_selection:
  "filter isTrailFacility ex_listing = ex_candidates"
  "filter isTrailFacility [ex_trailhead] = []"
  "getParkNameFromCode ''yose'' = Some ''Yosemite''"
  "get_facilities_query ex_http (''Yosemite'' @ '' trail'')
     = Inr (Some [ex_facility 101 ''Mist Trail'' ''Trail'', ex_trailhead])"
  "filter isTrailFacility [ex_facility 101 ''Mist Trail'' ''Trail'', ex_trailhead]
     = [ex_facility 101 ''Mist Trail'' ''Trail'']"
  "ex_candidates \<noteq> []"
  by code_simp+

theorem trail_selection_rule_witness:
  "selectTrails ex_http ''yose'' ex_listing = Inr ex_candidates
   \<and> selectTrails ex_http ''yose'' [ex_trailhead] = Inr [ex_facility 101 ''Mist Trail'' ''Trail'']"
  using trail_selection_rule [where recdata = ex_listing and h = ex_http and code = "''yose''"]
        trail_selection_rule
          [where recdata = "[ex_trailhead]" and h = ex_http and code = "''yose''"
             and parkName = "''Yosemite''"
             and searchData = "[ex_facility 101 ''Mist Trail'' ''Trail'', ex_trailhead]"]
        ex_selection
  by simp


section \<open>Length bounds that are zero\<close>

lemma applyQuery_minLength_needs_length:
  "truthy_num (minLength q) \<Longrightarrow> t \<in> set (applyQuery parseFloat (Some q) ts) \<Longrightarrow>
   truthy_str (getAttributeValue t ''Trail Length'')"
  by (auto simp: applyQuery_def Let_def byMinLength_def byMaxLength_def split: if_splits)

lemma applyQuery_maxLength_needs_length:
  "truthy_num (maxLength q) \<Longrightarrow> t \<in> set (applyQuery parseFloat (Some q) ts) \<Longrightarrow>
   truthy_str (getAttributeValue t ''Trail Length'')"
  by (auto simp: applyQuery_def Let_def byMaxLength_def split: if_splits)

text \<open>
  C10. A length bound of 0 is falsy, so the guard skips the length filter: the result
  is the one obtained without the bound, and with no other criterion every candidate
  is kept, with or without a "Trail Length" attribute. Under a truthy bound a
  candidate without that attribute is excluded.
\<close>

theorem zero_length_bound_is_no_bound:
  "applyQuery parseFloat (Some (q \<lparr> minLength := Some (Fin 0) \<rparr>)) ts
     = applyQuery parseFloat (Some (q \<lparr> minLength := None \<rparr>)) ts
   \<and> applyQuery parseFloat (Some (q \<lparr> maxLength := Some (Fin 0) \<rparr>)) ts
     = applyQuery parseFloat (Some (q \<lparr> maxLength := None \<rparr>)) ts
   \<and> applyQuery parseFloat
        (Some \<lparr> trailId = None, difficulty = None, minLength = Some (Fin 0), maxLength = None \<rparr>) ts
     = ts
   \<and> applyQuery parseFloat
        (Some \<lparr> trailId = None, difficulty = None, minLength = None, maxLength = Some (Fin 0) \<rparr>) ts
     = ts
   \<and> (truthy_num (Some b) \<and> getAttributeValue t ''Trail Length'' = None \<longrightarrow>
        t \<notin> set (applyQuery parseFloat (Some (q \<lparr> minLength := Some b \<rparr>)) ts)
        \<and> t \<notin> set (applyQuery parseFloat (Some (q \<lparr> maxLength := Some b \<rparr>)) ts))"
proof -
  have zero: "\<not> truthy_num (Some (Fin 0))" "\<not> truthy_num None"
    by (simp_all add: truthy_num_def)
  have skip_min: "applyQuery parseFloat (Some (q \<lparr> minLength := Some (Fin 0) \<rparr>)) ts
     = applyQuery parseFloat (Some (q \<lparr> minLength := None \<rparr>)) ts"
    by (simp add: applyQuery_def zero)
  have skip_max: "applyQuery parseFloat (Some (q \<lparr> maxLength := Some (Fin 0) \<rparr>)) ts
     = applyQuery parseFloat (Some (q \<lparr> maxLength := None \<rparr>)) ts"
    by (simp add: applyQuery_def zero)
  have all_min: "applyQuery parseFloat
        (Some \<lparr> trailId = None, difficulty = None, minLength = Some (Fin 0), maxLength = None \<rparr>) ts
     = ts"
    by (simp add: applyQuery_def zero truthy_str_def)
  have all_max: "applyQuery parseFloat
        (Some \<lparr> trailId = None, difficulty = None, minLength = None, maxLength = Some (Fin 0) \<rparr>) ts
     = ts"
    by (simp add: applyQuery_def zero truthy_str_def)
  have excl: "t \<notin> set (applyQuery parseFloat (Some (q \<lparr> minLength := Some b \<rparr>)) ts)
        \<and> t \<notin> set (applyQuery parseFloat (Some (q \<lparr> maxLength := Some b \<rparr>)) ts)"
    if "truthy_num (Some b) \<and> getAttributeValue t ''Trail Length'' = None"
    using that
      applyQuery_minLength_needs_length [of "q \<lparr> minLength := Some b \<rparr>" t parseFloat ts]
      applyQuery_maxLength_needs_length [of "q \<lparr> maxLength := Some b \<rparr>" t parseFloat ts]
    by (auto simp: truthy_str_def)
  from skip_min skip_max all_min all_max excl show ?thesis by blast
qed

lemma ex_bound:
  "truthy_num (Some (Fin 2))
   \<and> getAttributeValue (ex_facility 103 ''Four Mile TRAIL'' ''Facility'') ''Trail Length'' = None"
  by code_simp

theorem zero_length_bound_is_no_bound_witness:
  "ex_facility 103 ''Four Mile TRAIL'' ''Facility''
     \<notin> set (applyQuery ex_parseFloat (Some (ex_no_query \<lparr> minLength := Some (Fin 2) \<rparr>)) ex_candidates)
   \<and> ex_facility 103 ''Four Mile TRAIL'' ''Facility''
     \<notin> set (applyQuery ex_parseFloat (Some (ex_no_query \<lparr> maxLength := Some (Fin 2) \<rparr>)) ex_candidates)
   \<and> applyQuery ex_parseFloat
        (Some \<lparr> trailId = None, difficulty = None, minLength = Some (Fin 0), maxLength = None \<rparr>)
        ex_candidates
     = ex_candidates"
  using zero_length_bound_is_no_bound
          [where parseFloat = ex_parseFloat and q = ex_no_query and ts = ex_candidates
             and b = "Fin 2" and t = "ex_facility 103 ''Four Mile TRAIL'' ''Facility''"]
        ex_bound
  by blast


section \<open>Detail fetches that fail\<close>

lemma fetchDetail_failed:
  "get_facility h (FacilityID trail) = Inl e \<Longrightarrow> fetchDetail h trail = trail"
  by (simp add: fetchDetail_def)

lemma map_throwing_all_return:
  "\<forall>x \<in> set xs. \<exists>y. f x = Inr y \<Longrightarrow>
   \<exists>ys. map_throwing f xs = Inr ys \<and> length ys = length xs
        \<and> (\<forall>i < length xs. f (xs ! i) = Inr (ys ! i))"
proof (induction xs)
  case Nil
  show ?case by simp
next
  case (Cons x xs)
  from Cons.prems obtain y where y: "f x = Inr y" by auto
  from Cons obtain ys where ys: "map_throwing f xs = Inr ys" "length ys = length xs"
    "\<forall>i < length xs. f (xs ! i) = Inr (ys ! i)"
    by auto
  have "\<forall>i < length (x # xs). f ((x # xs) ! i) = Inr ((y # ys) ! i)"
    using y ys(3) by (auto simp: nth_Cons split: nat.splits)
  with y ys show ?case by simp
qed

lemma addById_nothing:
  assumes "\<forall>i. gav i \<noteq> Some ''Yes''"
  shows "addById gav uses = uses"
proof -
  have "fold (\<lambda>(i, n) uses. if gav i = Some ''Yes'' \<and> n \<notin> set uses then uses @ [n] else uses)
          xs uses = uses" for xs :: "(string \<times> string) list"
    using assms by (induction xs arbitrary: uses) auto
  then show ?thesis by (simp add: addById_def)
qed

lemma mapTrailResponse_hasFind:
  "hasFind (Attributes trail) \<Longrightarrow> \<exists>t. mapTrailResponse parseFloat JSON_parse trail code = Inr t"
  by (cases "Attributes trail") (simp_all add: hasFind_def mapTrailResponse_def attributeFinder_def Let_def)

text \<open>A candidate without attributes maps to a trail of base fields only.\<close>

lemma mapTrailResponse_no_attributes:
  assumes "Attributes trail = NoAttributes"
    and "mapTrailResponse parseFloat JSON_parse trail code = Inr t"
  shows "id_t t = toString (FacilityID trail) \<and> name_t t = FacilityName trail
    \<and> parkCode_t t = code \<and> length_t t = None \<and> difficulty_t t = None
    \<and> elevationGain t = None \<and> trailType t = None \<and> surfaceType t = None \<and> trailUse t = []"
proof -
  have none: "addById (\<lambda>name. None) [] = []"
    by (rule addById_nothing) simp
  from assms show ?thesis
    by (auto simp: mapTrailResponse_def attributeFinder_def Let_def truthy_str_def none
        addActivities_def)
qed

text \<open>
  A detail fetch that fails does not remove its candidate: the list built by the loop
  has one entry per candidate, and the entry of a candidate whose fetch failed is the
  candidate itself. Without a filter, and when every entry's attribute container is one
  that \<open>mapTrailResponse\<close> can search, \<open>getTrailsByPark\<close> returns one trail per
  candidate; the trail of a candidate whose fetch failed and that carried no attributes
  has its base fields and no length, difficulty, elevation gain, type, surface or uses.
\<close>

lemma detail_failure_keeps_candidate_when_searchable:
  "length (detailedTrails h trails) = length trails
   \<and> (\<forall>i < length trails. (\<exists>e. get_facility h (FacilityID (trails ! i)) = Inl e) \<longrightarrow>
         detailedTrails h trails ! i = trails ! i)
   \<and> (parkToRecAreaId h code = Inr (Some recAreaId) \<and> recAreaId \<noteq> 0
        \<and> get_recarea_facilities h recAreaId = Inr (Some recdata) \<and> recdata \<noteq> []
        \<and> selectTrails h code recdata = Inr trails
        \<and> (\<forall>d \<in> set (detailedTrails h trails). hasFind (Attributes d)) \<longrightarrow>
        (\<exists>ts. getTrailsByPark h parseFloat JSON_parse code None = Inr ts
           \<and> length ts = length trails
           \<and> (\<forall>i < length trails.
                 (\<exists>e. get_facility h (FacilityID (trails ! i)) = Inl e)
                 \<and> Attributes (trails ! i) = NoAttributes \<longrightarrow>
                 id_t (ts ! i) = toString (FacilityID (trails ! i))
                 \<and> name_t (ts ! i) = FacilityName (trails ! i)
                 \<and> length_t (ts ! i) = None \<and> difficulty_t (ts ! i) = None
                 \<and> elevationGain (ts ! i) = None \<and> trailType (ts ! i) = None
                 \<and> surfaceType (ts ! i) = None \<and> trailUse (ts ! i) = [])))"
proof (intro conjI allI impI)
  show "length (detailedTrails h trails) = length trails"
    by (simp add: detailedTrails_def)
next
  fix i
  assume "i < length trails" "\<exists>e. get_facility h (FacilityID (trails ! i)) = Inl e"
  then show "detailedTrails h trails ! i = trails ! i"
    by (auto simp: detailedTrails_def fetchDetail_failed)
next
  let ?f = "\<lambda>trail. mapTrailResponse parseFloat JSON_parse trail code"
  let ?ds = "detailedTrails h trails"
  assume a: "parkToRecAreaId h code = Inr (Some recAreaId) \<and> recAreaId \<noteq> 0
        \<and> get_recarea_facilities h recAreaId = Inr (Some recdata) \<and> recdata \<noteq> []
        \<and> selectTrails h code recdata = Inr trails
        \<and> (\<forall>d \<in> set (detailedTrails h trails). hasFind (Attributes d))"
  then have run: "getTrailsByPark h parseFloat JSON_parse code None = map_throwing ?f ?ds"
    by (simp add: getTrailsByPark_def applyQuery_def)
  from a have "\<forall>d \<in> set ?ds. \<exists>t. ?f d = Inr t"
    by (simp add: mapTrailResponse_hasFind)
  from map_throwing_all_return [OF this]
  obtain ts where ts: "map_throwing ?f ?ds = Inr ts" "length ts = length ?ds"
    "\<forall>i < length ?ds. ?f (?ds ! i) = Inr (ts ! i)"
    by blast
  have len: "length ?ds = length trails"
    by (simp add: detailedTrails_def)
  have base: "id_t (ts ! i) = toString (FacilityID (trails ! i))
                 \<and> name_t (ts ! i) = FacilityName (trails ! i)
                 \<and> length_t (ts ! i) = None \<and> difficulty_t (ts ! i) = None
                 \<and> elevationGain (ts ! i) = None \<and> trailType (ts ! i) = None
                 \<and> surfaceType (ts ! i) = None \<and> trailUse (ts ! i) = []"
    if i: "i < length trails"
      and failed: "(\<exists>e. get_facility h (FacilityID (trails ! i)) = Inl e)
                 \<and> Attributes (trails ! i) = NoAttributes"
    for i
  proof -
    from i failed have same: "?ds ! i = trails ! i"
      by (auto simp: detailedTrails_def fetchDetail_failed)
    from ts(3) i len have "?f (?ds ! i) = Inr (ts ! i)" by simp
    with same have "?f (trails ! i) = Inr (ts ! i)" by simp
    from mapTrailResponse_no_attributes [OF _ this] failed show ?thesis by simp
  qed
  have r1: "getTrailsByPark h parseFloat JSON_parse code None = Inr ts"
    using run ts(1) by simp
  have r2: "length ts = length trails"
    using ts(2) len by simp
  have r3: "\<forall>i < length trails.
                 (\<exists>e. get_facility h (FacilityID (trails ! i)) = Inl e)
                 \<and> Attributes (trails ! i) = NoAttributes \<longrightarrow>
                 id_t (ts ! i) = toString (FacilityID (trails ! i))
                 \<and> name_t (ts ! i) = FacilityName (trails ! i)
                 \<and> length_t (ts ! i) = None \<and> difficulty_t (ts ! i) = None
                 \<and> elevationGain (ts ! i) = None \<and> trailType (ts ! i) = None
                 \<and> surfaceType (ts ! i) = None \<and> trailUse (ts ! i) = []"
    using base by blast
  show "\<exists>ts. getTrailsByPark h parseFloat JSON_parse code None = Inr ts
           \<and> length ts = length trails
           \<and> (\<forall>i < length trails.
                 (\<exists>e. get_facility h (FacilityID (trails ! i)) = Inl e)
                 \<and> Attributes (trails ! i) = NoAttributes \<longrightarrow>
                 id_t (ts ! i) = toString (FacilityID (trails ! i))
                 \<and> name_t (ts ! i) = FacilityName (trails ! i)
                 \<and> length_t (ts ! i) = None \<and> difficulty_t (ts ! i) = None
                 \<and> elevationGain (ts ! i) = None \<and> trailType (ts ! i) = None
                 \<and> surfaceType (ts ! i) = None \<and> trailUse (ts ! i) = [])"
    by (rule exI [of _ ts]) (intro conjI r1 r2 r3)
qed

lemma ex_run:
  "parkToRecAreaId ex_http ''yose'' = Inr (Some 2991) \<and> (2991 :: nat) \<noteq> 0
   \<and> get_recarea_facilities ex_http 2991 = Inr (Some ex_listing) \<and> ex_listing \<noteq> []
   \<and> selectTrails ex_http ''yose'' ex_listing = Inr ex_candidates
   \<and> (\<forall>d \<in> set (detailedTrails ex_http ex_candidates). hasFind (Attributes d))"
  by code_simp

lemma ex_failed_candidate:
  "length ex_candidates = 3
   \<and> get_facility ex_http (FacilityID (ex_candidates ! 1)) = Inl (TransientIOError ''HTTP 500'')
   \<and> Attributes (ex_candidates ! 1) = NoAttributes
   \<and> FacilityName (ex_candidates ! 1) = Some ''Four Mile TRAIL''"
  by code_simp

lemma ex_three_candidates:
  "\<exists>ts. getTrailsByPark ex_http ex_parseFloat ex_JSON_parse ''yose'' None = Inr ts
      \<and> length ts = 3
      \<and> name_t (ts ! 1) = Some ''Four Mile TRAIL''
      \<and> length_t (ts ! 1) = None \<and> difficulty_t (ts ! 1) = None \<and> trailUse (ts ! 1) = []"
proof -
  from detail_failure_keeps_candidate_when_searchable
         [where h = ex_http and trails = ex_candidates and code = "''yose''"
            and recAreaId = 2991 and recdata = ex_listing
            and parseFloat = ex_parseFloat and JSON_parse = ex_JSON_parse]
       ex_run
  obtain ts where ts: "getTrailsByPark ex_http ex_parseFloat ex_JSON_parse ''yose'' None = Inr ts"
    "length ts = length ex_candidates"
    "\<forall>i < length ex_candidates.
        (\<exists>e. get_facility ex_http (FacilityID (ex_candidates ! i)) = Inl e)
        \<and> Attributes (ex_candidates ! i) = NoAttributes \<longrightarrow>
        id_t (ts ! i) = toString (FacilityID (ex_candidates ! i))
        \<and> name_t (ts ! i) = FacilityName (ex_candidates ! i)
        \<and> length_t (ts ! i) = None \<and> difficulty_t (ts ! i) = None
        \<and> elevationGain (ts ! i) = None \<and> trailType (ts ! i) = None
        \<and> surfaceType (ts ! i) = None \<and> trailUse (ts ! i) = []"
    by blast
  from ts(3) ex_failed_candidate
  have "name_t (ts ! 1) = Some ''Four Mile TRAIL''
      \<and> length_t (ts ! 1) = None \<and> difficulty_t (ts ! 1) = None \<and> trailUse (ts ! 1) = []"
    by auto
  with ts(1) ts(2) ex_failed_candidate show ?thesis by auto
qed


text \<open>
  C7. The specification has every candidate kept when a detail fetch fails: with three
  candidates of which exactly one cannot be fetched, three trails are returned. The
  loop does keep the three candidates, the failed one as it was. But when one of the
  other two comes back with its attributes in a nested container, \<open>mapTrailResponse\<close>
  throws on it and \<open>getTrailsByPark\<close> rejects: no trail is returned at all.
\<close>

theorem detail_failure_then_nested_rejects:
  "selectTrails ex_http_mixed ''yose'' ex_listing = Inr ex_candidates
   \<and> map FacilityID ex_candidates = [101, 103, 104]
   \<and> get_facility ex_http_mixed 101 = Inr (Some (NestedContainer [ex_attr ''Trail Length'' ''4.5'']))
   \<and> get_facility ex_http_mixed 103 = Inl (TransientIOError ''HTTP 500'')
   \<and> get_facility ex_http_mixed 104 = Inr (Some (FlatList [ex_attr ''Trail Length'' ''abc'']))
   \<and> length (detailedTrails ex_http_mixed ex_candidates) = 3
   \<and> detailedTrails ex_http_mixed ex_candidates ! 1 = ex_candidates ! 1
   \<and> getTrailsByPark ex_http_mixed ex_parseFloat ex_JSON_parse ''yose'' None
       = Inl (TypeError ''trail.Attributes.find is not a function'')"
  by code_simp


section \<open>Attribute containers that \<open>mapTrailResponse\<close> cannot search\<close>

text \<open>
  C6. The specification has attribute decoding never raise, whatever the shape of the
  attribute container. For a nested container the method \<open>getAttributeValue\<close> of the
  service finds the length, but \<open>mapTrailResponse\<close> throws a \<open>TypeError\<close>, and with
  it \<open>getTrailsByPark\<close> rejects as soon as a detail record carries such a container.
\<close>

theorem nested_attributes_throw:
  "getAttributeValue ex_nested_trail ''Trail Length'' = Some ''4.5''
   \<and> mapTrailResponse ex_parseFloat ex_JSON_parse ex_nested_trail ''yose''
       = Inl (TypeError ''trail.Attributes.find is not a function'')
   \<and> getTrailsByPark ex_http_nested ex_parseFloat ex_JSON_parse ''yose'' None
       = Inl (TypeError ''trail.Attributes.find is not a function'')"
  by code_simp


end
